theory Spec2Isabelle
  imports Complex_Main "HOL-Library.Sublist" "HOL-Library.AList" "HOL-Library.Multiset"
begin

section \<open>Python strings\<close>

text \<open>
  A Python \<open>str\<close> is modelled as a \<open>string\<close>; one \<open>char\<close> stands for one character of
  the \<open>str\<close>. The functions below are the methods of \<open>str\<close> that \<open>convert.py\<close> calls,
  written after the Python language reference.
\<close>

text \<open>\<open>s.rfind(c)\<close> for a one-character separator: the highest index holding \<open>c\<close>.\<close>

fun rfind :: "string \<Rightarrow> char \<Rightarrow> nat option" where
  "rfind [] c = None"
| "rfind (x # xs) c =
     (case rfind xs c of
        Some i \<Rightarrow> Some (Suc i)
      | None \<Rightarrow> if x = c then Some 0 else None)"

text \<open>
  \<open>s.rpartition(sep)\<close>: split at the last occurrence of \<open>sep\<close> into the part before, the
  separator and the part after; when \<open>sep\<close> does not occur, two empty strings and \<open>s\<close>.
\<close>

definition rpartition :: "string \<Rightarrow> char \<Rightarrow> string \<times> string \<times> string" where
  "rpartition s sep =
     (case rfind s sep of
        None \<Rightarrow> ([], [], s)
      | Some i \<Rightarrow> (take i s, [sep], drop (Suc i) s))"

text \<open>
  \<open>xs[start:stop]\<close>: a negative index counts from the end, and both indices are clipped
  to the length, so a slice never raises.
\<close>

definition slice_index :: "nat \<Rightarrow> int \<Rightarrow> nat" where
  "slice_index n i = (if i < 0 then nat (max (int n + i) 0) else min (nat i) n)"

definition slice :: "'a list \<Rightarrow> int \<Rightarrow> int \<Rightarrow> 'a list" where
  "slice xs start stop =
     (let a = slice_index (length xs) start; b = slice_index (length xs) stop
      in take (b - a) (drop a xs))"

text \<open>\<open>sub in s\<close> on strings: \<open>sub\<close> occurs in \<open>s\<close> as a contiguous run.\<close>

fun contains :: "string \<Rightarrow> string \<Rightarrow> bool" where
  "contains [] sub = (sub = [])"
| "contains (x # xs) sub = (prefix sub (x # xs) \<or> contains xs sub)"

section \<open>TOML values, authors and maintainers\<close>

text \<open>
  A TOML value as \<open>tomlkit\<close> holds it. An array keeps, between its items, the whitespace
  that \<open>add_line\<close> puts there; a table keeps its keys in order. \<open>Float\<close> is a finite
  float; \<open>Opaque\<close> holds the text of the remaining scalars (\<open>inf\<close>, \<open>nan\<close>, dates and
  times), which \<open>convert\<close> only ever copies.
\<close>

datatype 'a entry = Item 'a | Whitespace string

datatype toml =
    String string
  | Integer int
  | Boolean bool
  | Float rat
  | Opaque string
  | Array "toml entry list"
  | Table "(string \<times> toml) list"

type_synonym dict = "(string \<times> toml) list"

text \<open>
  \<^verbatim>\<open>
  def read_name_email(string: str) -> dict[str, str]:
      name, _, email = string.rpartition(" ")
      return {"name": name, "email": email[1:-1]}
  \<close>
\<close>

definition read_name_email :: "string \<Rightarrow> dict" where
  "read_name_email string =
     (case rpartition string CHR '' '' of
        (name, _, email) \<Rightarrow> [(''name'', String name), (''email'', String (slice email 1 (- 1)))])"

section \<open>Python values, dictionaries and errors\<close>

text \<open>The exceptions that the statements of \<open>convert.py\<close> and the library calls raise.\<close>

datatype error =
    KeyError string
  | KeyAlreadyPresent string
  | TypeError
  | AttributeError
  | AssertionError
  | ParseError
  | FileNotFoundError "string list"
  | FileExistsError "string list"
  | IsADirectoryError "string list"
  | NotADirectoryError "string list"
  | ShutilError "string list"
  | OSError "string list"

text \<open>Sequencing of statements that may raise: the first exception ends the run.\<close>

definition and_then :: "error + 'a \<Rightarrow> ('a \<Rightarrow> error + 'b) \<Rightarrow> error + 'b" where
  "and_then r f = (case r of Inl e \<Rightarrow> Inl e | Inr x \<Rightarrow> f x)"

text \<open>The items of an array, without the whitespace between them.\<close>

fun values_of :: "toml entry list \<Rightarrow> toml list" where
  "values_of [] = []"
| "values_of (Item v # es) = v # values_of es"
| "values_of (Whitespace s # es) = values_of es"

text \<open>The truth value of an object in an \<open>if\<close>; a missing value (\<open>None\<close>) is false.\<close>

fun truthy :: "toml \<Rightarrow> bool" where
  "truthy (String s) = (s \<noteq> [])"
| "truthy (Integer i) = (i \<noteq> 0)"
| "truthy (Boolean b) = b"
| "truthy (Float r) = (r \<noteq> 0)"
| "truthy (Opaque s) = True"
| "truthy (Array es) = (values_of es \<noteq> [])"
| "truthy (Table t) = (t \<noteq> [])"

text \<open>
  A dictionary is an association list in insertion order. \<open>d.get(k)\<close> is \<open>map_of d k\<close>,
  \<open>d[k] = v\<close> is \<open>AList.update k v d\<close>, which replaces the value of a key in place and
  puts a new key at the end. \<open>d[k]\<close> raises on a missing key.
\<close>

definition getitem :: "dict \<Rightarrow> string \<Rightarrow> error + toml" where
  "getitem d k = (case map_of d k of None \<Rightarrow> Inl (KeyError k) | Some v \<Rightarrow> Inr v)"

definition setdefault :: "string \<Rightarrow> toml \<Rightarrow> dict \<Rightarrow> dict" where
  "setdefault k v d = (case map_of d k of None \<Rightarrow> AList.update k v d | Some _ \<Rightarrow> d)"

text \<open>\<open>d.pop(k)\<close> without a default.\<close>

definition pop :: "string \<Rightarrow> dict \<Rightarrow> error + dict" where
  "pop k d = (case map_of d k of None \<Rightarrow> Inl (KeyError k) | Some _ \<Rightarrow> Inr (AList.delete k d))"

text \<open>\<open>table.add(key, value)\<close> of \<open>tomlkit\<close>: a key that the table holds already is refused.\<close>

definition add :: "string \<Rightarrow> toml \<Rightarrow> dict \<Rightarrow> error + dict" where
  "add k v d = (case map_of d k of None \<Rightarrow> Inr (d @ [(k, v)]) | Some _ \<Rightarrow> Inl (KeyAlreadyPresent k))"

text \<open>\<open>x.items()\<close> and \<open>x[k]\<close> exist on tables only.\<close>

definition items :: "toml \<Rightarrow> error + dict" where
  "items x = (case x of Table t \<Rightarrow> Inr t | _ \<Rightarrow> Inl AttributeError)"

definition subscript :: "toml \<Rightarrow> string \<Rightarrow> error + toml" where
  "subscript x k = (case x of Table t \<Rightarrow> getitem t k | _ \<Rightarrow> Inl TypeError)"

text \<open>
  Iterating over a value: an array gives its items, a table its keys, a string its
  characters; the other scalars are not iterable.
\<close>

definition iterate :: "toml \<Rightarrow> error + toml list" where
  "iterate x =
     (case x of
        Array es \<Rightarrow> Inr (values_of es)
      | Table t \<Rightarrow> Inr (map (\<lambda>kv. String (fst kv)) t)
      | String s \<Rightarrow> Inr (map (\<lambda>c. String [c]) s)
      | _ \<Rightarrow> Inl TypeError)"

text \<open>\<open>sub in x\<close> for a string \<open>sub\<close>: substring, list membership or key membership.\<close>

definition py_in :: "string \<Rightarrow> toml \<Rightarrow> error + bool" where
  "py_in sub x =
     (case x of
        String s \<Rightarrow> Inr (contains s sub)
      | Array es \<Rightarrow> Inr (String sub \<in> set (values_of es))
      | Table t \<Rightarrow> Inr (sub \<in> set (map fst t))
      | _ \<Rightarrow> Inl TypeError)"

text \<open>
  \<open>array.add_line(*items, indent=...)\<close> of \<open>tomlkit\<close>: a line break with the indentation,
  then the items. The commas are left out of the model.
\<close>

definition add_line :: "toml list \<Rightarrow> string \<Rightarrow> toml \<Rightarrow> error + toml" where
  "add_line xs indent a =
     (case a of
        Array es \<Rightarrow> Inr (Array (es @ Whitespace (CHR 0x0A # indent) # map Item xs))
      | _ \<Rightarrow> Inl AttributeError)"

text \<open>\<open>d[k].add_line(...)\<close>: the array stored under \<open>k\<close> grows in place.\<close>

definition add_line_at :: "string \<Rightarrow> toml list \<Rightarrow> string \<Rightarrow> dict \<Rightarrow> error + dict" where
  "add_line_at k xs indent d =
     and_then (getitem d k) (\<lambda>a.
     and_then (add_line xs indent a) (\<lambda>a'.
     Inr (AList.update k a' d)))"

section \<open>The project object\<close>

text \<open>
  \<open>PoetryProject\<close> and the dependency classes belong to the module \<open>project.py\<close>;
  \<open>convert\<close> only uses them. The model takes the object that
  \<open>PoetryProject(project_path, ensure_src=ensure_src)\<close> returns as an input, and records
  for each dependency what \<open>convert\<close> asks of it: the results of \<open>is_python_dep()\<close> and
  \<open>to_str()\<close>, the attribute \<open>is_dev\<close>, whether it is a \<open>BasicDependency\<close>, and its
  \<open>version\<close>.
\<close>

record dependency =
  is_python_dep :: bool
  is_basic :: bool
  version :: string
  is_dev :: bool
  to_str :: string

record poetry_project =
  project_name :: string
  "module_name" :: string
  module_path :: "string list"
  poetry :: dict
  dependencies :: "dependency list"

section \<open>Building the project section\<close>

text \<open>\<open>if src.get(k): dst[k'] = src[k]\<close>\<close>

definition copy_if_set :: "dict \<Rightarrow> string \<Rightarrow> string \<Rightarrow> dict \<Rightarrow> dict" where
  "copy_if_set src k k' dst =
     (case map_of src k of
        None \<Rightarrow> dst
      | Some v \<Rightarrow> if truthy v then AList.update k' v dst else dst)"

text \<open>\<open>list(map(read_name_email, xs))\<close>: an element that is no string has no \<open>rpartition\<close>.\<close>

fun map_read_name_email :: "toml list \<Rightarrow> error + toml list" where
  "map_read_name_email [] = Inr []"
| "map_read_name_email (x # xs) =
     (case x of
        String s \<Rightarrow>
          (case map_read_name_email xs of
             Inl e \<Rightarrow> Inl e
           | Inr rs \<Rightarrow> Inr (Table (read_name_email s) # rs))
      | _ \<Rightarrow> Inl AttributeError)"

text \<open>
  \<^verbatim>\<open>
  authors = list(map(read_name_email, <xs>))
  if authors:
      project_sec[key] = tomlkit.array()
      project_sec[key].extend(authors)
  \<close>
\<close>

definition set_people :: "string \<Rightarrow> toml list \<Rightarrow> dict \<Rightarrow> error + dict" where
  "set_people key xs project_sec =
     and_then (map_read_name_email xs) (\<lambda>people.
     Inr (if people \<noteq> [] then AList.update key (Array (map Item people)) project_sec
          else project_sec))"

text \<open>
  \<^verbatim>\<open>
  for dep in poetry_project.dependencies:
      if dep.is_python_dep():
          assert isinstance(dep, BasicDependency)
          project_sec["requires-python"] = format_python_constraint(dep.version)
      else:
          if dep.is_dev:
              tool_rye_sec.setdefault("dev-dependencies", tomlkit.array())
              tool_rye_sec["dev-dependencies"].add_line(dep.to_str())
          else:
              project_sec["dependencies"].add_line(dep.to_str())
  \<close>
  \<open>format_python_constraint\<close> belongs to \<open>poetry-core\<close> and is a parameter.
\<close>

fun dependencies_loop ::
  "(string \<Rightarrow> string) \<Rightarrow> dependency list \<Rightarrow> dict \<Rightarrow> dict \<Rightarrow> error + dict \<times> dict" where
  "dependencies_loop fmt [] project_sec tool_rye_sec = Inr (project_sec, tool_rye_sec)"
| "dependencies_loop fmt (dep # deps) project_sec tool_rye_sec =
     (if is_python_dep dep then
        (if \<not> is_basic dep then Inl AssertionError
         else dependencies_loop fmt deps
                (AList.update ''requires-python'' (String (fmt (version dep))) project_sec)
                tool_rye_sec)
      else if is_dev dep then
        (case add_line_at ''dev-dependencies'' [String (to_str dep)] ''    ''
                (setdefault ''dev-dependencies'' (Array []) tool_rye_sec) of
           Inl e \<Rightarrow> Inl e
         | Inr tool_rye_sec' \<Rightarrow> dependencies_loop fmt deps project_sec tool_rye_sec')
      else
        (case add_line_at ''dependencies'' [String (to_str dep)] ''    '' project_sec of
           Inl e \<Rightarrow> Inl e
         | Inr project_sec' \<Rightarrow> dependencies_loop fmt deps project_sec' tool_rye_sec))"

text \<open>
  Lines 74 to 88: the empty array, the loop, and the closing line break of each array.
\<close>

definition convert_dependencies ::
  "(string \<Rightarrow> string) \<Rightarrow> dependency list \<Rightarrow> dict \<Rightarrow> dict \<Rightarrow> error + dict \<times> dict" where
  "convert_dependencies fmt deps project_sec tool_rye_sec =
     and_then (dependencies_loop fmt deps
                 (AList.update ''dependencies'' (Array []) project_sec) tool_rye_sec)
       (\<lambda>(project_sec', tool_rye_sec').
     and_then (if map_of tool_rye_sec' ''dev-dependencies'' \<noteq> None
               then add_line_at ''dev-dependencies'' [] [] tool_rye_sec'
               else Inr tool_rye_sec') (\<lambda>tool_rye_sec''.
     and_then (add_line_at ''dependencies'' [] [] project_sec') (\<lambda>project_sec''.
     Inr (project_sec'', tool_rye_sec''))))"

text \<open>
  \<^verbatim>\<open>
  def _convert_scripts(poetry_scripts):
      rye_scripts = {}
      for script_name, script_value in poetry_scripts.items():
          if isinstance(script_value, str):
              rye_scripts[script_name] = script_value
          elif isinstance(script_value, dict):
              rye_scripts[script_name] = script_value.get("callable", "")
      return rye_scripts
  \<close>
\<close>

fun convert_scripts_loop :: "dict \<Rightarrow> dict \<Rightarrow> dict" where
  "convert_scripts_loop [] rye_scripts = rye_scripts"
| "convert_scripts_loop ((script_name, script_value) # rest) rye_scripts =
     convert_scripts_loop rest
       (case script_value of
          String s \<Rightarrow> AList.update script_name (String s) rye_scripts
        | Table t \<Rightarrow>
            AList.update script_name
              (case map_of t ''callable'' of None \<Rightarrow> String [] | Some c \<Rightarrow> c) rye_scripts
        | _ \<Rightarrow> rye_scripts)"

definition convert_scripts :: "toml \<Rightarrow> error + dict" where
  "convert_scripts poetry_scripts =
     and_then (items poetry_scripts) (\<lambda>kvs. Inr (convert_scripts_loop kvs []))"

text \<open>
  Lines 29 to 72 of \<open>convert\<close>: the required fields, the authors and maintainers, the
  readme, the URLs, the keywords and the classifiers. The licence and the packages are
  read and not used. The result is \<open>project_sec\<close> so far and \<open>urls_sec\<close>.
\<close>

definition describe_project :: "poetry_project \<Rightarrow> error + dict \<times> dict" where
  "describe_project proj =
     and_then (getitem (poetry proj) ''version'') (\<lambda>ver.
     and_then (getitem (poetry proj) ''description'') (\<lambda>description.
     and_then (getitem (poetry proj) ''authors'') (\<lambda>a.
     and_then (iterate a) (\<lambda>authors.
     and_then (set_people ''authors'' authors
                 [(''name'', String (project_name proj)), (''version'', ver),
                  (''description'', description)]) (\<lambda>sec1.
     and_then (case map_of (poetry proj) ''maintainers'' of
                 None \<Rightarrow> Inr [] | Some m \<Rightarrow> iterate m) (\<lambda>maintainers.
     and_then (set_people ''maintainers'' maintainers sec1) (\<lambda>sec2.
     Inr (copy_if_set (poetry proj) ''classifiers'' ''classifiers''
            (copy_if_set (poetry proj) ''keywords'' ''keywords''
              (copy_if_set (poetry proj) ''readme'' ''readme'' sec2)),
          copy_if_set (poetry proj) ''documentation'' ''Documentation''
            (copy_if_set (poetry proj) ''repository'' ''Repository''
              (copy_if_set (poetry proj) ''homepage'' ''Homepage'' []))))))))))"

text \<open>
  \<^verbatim>\<open>
  if poetry_project.poetry.get("scripts"):
      project_sec["scripts"] = _convert_scripts(poetry_project.poetry["scripts"])
  \<close>
\<close>

definition set_scripts :: "dict \<Rightarrow> dict \<Rightarrow> error + dict" where
  "set_scripts poetry_sec project_sec =
     (case map_of poetry_sec ''scripts'' of
        None \<Rightarrow> Inr project_sec
      | Some s \<Rightarrow>
          if truthy s
          then and_then (convert_scripts s) (\<lambda>rye_scripts.
                 Inr (AList.update ''scripts'' (Table rye_scripts) project_sec))
          else Inr project_sec)"

text \<open>
  Lines 25 to 92 of \<open>convert\<close>: the sections \<open>project_sec\<close>, \<open>urls_sec\<close> and
  \<open>tool_rye_sec\<close>.
\<close>

definition build_project ::
  "(string \<Rightarrow> string) \<Rightarrow> poetry_project \<Rightarrow> bool \<Rightarrow> error + dict \<times> dict \<times> dict" where
  "build_project fmt proj virtual_project =
     and_then (describe_project proj) (\<lambda>(sec, urls_sec).
     and_then (convert_dependencies fmt (dependencies proj) sec
                 [(''managed'', Boolean True), (''virtual'', Boolean virtual_project)])
       (\<lambda>(sec', tool_rye_sec).
     and_then (set_scripts (poetry proj) sec') (\<lambda>project_sec.
     Inr (project_sec, urls_sec, tool_rye_sec))))"

section \<open>Building the result document\<close>

text \<open>\<open>for key, value in pyproject["tool"].items(): tool_table.add(key, value)\<close>\<close>

fun add_items :: "dict \<Rightarrow> dict \<Rightarrow> error + dict" where
  "add_items [] tool_table = Inr tool_table"
| "add_items ((key, v) # rest) tool_table =
     (case add key v tool_table of
        Inl e \<Rightarrow> Inl e
      | Inr tool_table' \<Rightarrow> add_items rest tool_table')"

text \<open>\<open>list(filterfalse(lambda x: sub in x, xs))\<close>\<close>

fun filterfalse_in :: "string \<Rightarrow> toml list \<Rightarrow> error + toml list" where
  "filterfalse_in sub [] = Inr []"
| "filterfalse_in sub (x # xs) =
     (case py_in sub x of
        Inl e \<Rightarrow> Inl e
      | Inr found \<Rightarrow>
          (case filterfalse_in sub xs of
             Inl e \<Rightarrow> Inl e
           | Inr kept \<Rightarrow> Inr (if found then kept else x # kept)))"

text \<open>
  \<^verbatim>\<open>
  result["build-system"] = deepcopy(pyproject["build-system"])
  result["build-system"]["requires"] = list(
      filterfalse(lambda x: "poetry-core" in x, result["build-system"]["requires"]))
  result["build-system"]["requires"].append("hatchling")
  result["build-system"]["build-backend"] = "hatchling.build"
  \<close>
  The function maps the copied section to the rewritten one.
\<close>

definition rewrite_build_system :: "toml \<Rightarrow> error + toml" where
  "rewrite_build_system build_system =
     and_then (subscript build_system ''requires'') (\<lambda>requires.
     and_then (iterate requires) (\<lambda>xs.
     and_then (filterfalse_in ''poetry-core'' xs) (\<lambda>kept.
     and_then (items build_system) (\<lambda>t.
     Inr (Table (AList.update ''build-backend'' (String ''hatchling.build'')
           (AList.update ''requires'' (Array (map Item (kept @ [String ''hatchling'']))) t)))))))"

text \<open>
  The body of the loop over \<open>pyproject.keys()\<close>, lines 109 to 130. The state of the
  loop is the result document and the tool table; \<open>result["tool"]\<close> and \<open>tool_table\<close>
  are one object, so both components carry the table.
\<close>

definition copy_section ::
  "bool \<Rightarrow> dict \<Rightarrow> string \<Rightarrow> dict \<Rightarrow> dict \<Rightarrow> error + dict \<times> dict" where
  "copy_section virtual_project pyproject name result tool_table =
     (if name = ''project'' then Inr (result, tool_table)
      else if name = ''tool'' then
        and_then (getitem pyproject ''tool'') (\<lambda>tool.
        and_then (items tool) (\<lambda>kvs.
        and_then (add_items kvs tool_table) (\<lambda>tool_table1.
        and_then (pop ''poetry'' tool_table1) (\<lambda>tool_table2.
        Inr (AList.update ''tool'' (Table tool_table2) result, tool_table2)))))
      else if name = ''build-system'' then
        (if \<not> virtual_project then
           and_then (getitem pyproject ''build-system'') (\<lambda>copy.
           and_then (rewrite_build_system copy) (\<lambda>build_system.
           Inr (AList.update ''build-system'' build_system result, tool_table)))
         else Inr (result, tool_table))
      else
        and_then (getitem pyproject name) (\<lambda>v.
        Inr (AList.update name v result, tool_table)))"

text \<open>\<open>for name in pyproject.keys(): ...\<close>\<close>

fun copy_sections ::
  "bool \<Rightarrow> dict \<Rightarrow> string list \<Rightarrow> dict \<Rightarrow> dict \<Rightarrow> error + dict \<times> dict" where
  "copy_sections virtual_project pyproject [] result tool_table = Inr (result, tool_table)"
| "copy_sections virtual_project pyproject (name # names) result tool_table =
     (case copy_section virtual_project pyproject name result tool_table of
        Inl e \<Rightarrow> Inl e
      | Inr (result', tool_table') \<Rightarrow>
          copy_sections virtual_project pyproject names result' tool_table')"

text \<open>
  \<open>[item["include"] for item in xs if "include" in item]\<close>, from left to right.
\<close>

fun package_includes :: "toml list \<Rightarrow> error + toml list" where
  "package_includes [] = Inr []"
| "package_includes (item # rest) =
     (case py_in ''include'' item of
        Inl e \<Rightarrow> Inl e
      | Inr False \<Rightarrow> package_includes rest
      | Inr True \<Rightarrow>
          (case subscript item ''include'' of
             Inl e \<Rightarrow> Inl e
           | Inr v \<Rightarrow>
               (case package_includes rest of
                  Inl e \<Rightarrow> Inl e
                | Inr vs \<Rightarrow> Inr (v # vs))))"

definition packages_of :: "poetry_project \<Rightarrow> bool \<Rightarrow> error + toml list" where
  "packages_of proj ensure_src =
     (if ensure_src then Inr [String (''src/'' @ module_name proj)]
      else and_then (case map_of (poetry proj) ''packages'' of
                       None \<Rightarrow> Inr [] | Some p \<Rightarrow> iterate p) package_includes)"

text \<open>
  \<^verbatim>\<open>
  result["tool"]["hatch"] = {"metadata": {"allow-direct-references": True}}
  result["tool"]["hatch"]["build"] = {"targets": {"wheel": {"packages": packages}}}
  \<close>
\<close>

definition hatch_table :: "toml list \<Rightarrow> toml" where
  "hatch_table packages =
     Table [(''metadata'', Table [(''allow-direct-references'', Boolean True)]),
            (''build'', Table [(''targets'',
               Table [(''wheel'', Table [(''packages'', Array (map Item packages))])])])]"

definition add_hatch :: "poetry_project \<Rightarrow> bool \<Rightarrow> dict \<Rightarrow> error + dict" where
  "add_hatch proj ensure_src result =
     and_then (packages_of proj ensure_src) (\<lambda>packages.
     and_then (getitem result ''tool'') (\<lambda>tool.
     and_then (items tool) (\<lambda>tool_table.
     Inr (AList.update ''tool''
            (Table (AList.update ''hatch'' (hatch_table packages) tool_table)) result))))"

text \<open>Lines 97 to 146 of \<open>convert\<close>: the document that will be written.\<close>

definition build_result ::
  "poetry_project \<Rightarrow> dict \<Rightarrow> bool \<Rightarrow> bool \<Rightarrow> dict \<times> dict \<times> dict \<Rightarrow> error + dict" where
  "build_result proj pyproject ensure_src virtual_project secs =
     (case secs of (project_sec, urls_sec, tool_rye_sec) \<Rightarrow>
     let result0 = [(''project'', Table project_sec)];
         result1 = (if urls_sec \<noteq> [] then AList.update ''project.urls'' (Table urls_sec) result0
                    else result0)
     in
     and_then (add ''rye'' (Table tool_rye_sec) []) (\<lambda>tool_table.
     and_then (copy_sections virtual_project pyproject (map fst pyproject) result1 tool_table)
       (\<lambda>(result, _).
     if \<not> virtual_project then add_hatch proj ensure_src result else Inr result)))"

text \<open>
  The document that \<open>convert\<close> writes for a project object and the parsed
  \<open>pyproject.toml\<close>.
\<close>

definition convert_document ::
  "(string \<Rightarrow> string) \<Rightarrow> poetry_project \<Rightarrow> dict \<Rightarrow> bool \<Rightarrow> bool \<Rightarrow> error + dict" where
  "convert_document fmt proj pyproject ensure_src virtual_project =
     and_then (build_project fmt proj virtual_project)
       (build_result proj pyproject ensure_src virtual_project)"

section \<open>The file system and the console\<close>

text \<open>
  A path is the list of its components. The file system maps the paths that exist to
  what they hold: a file with its text, a directory, or a symbolic link with the path it
  points to, written from the root. \<open>Path.exists\<close> follows links, as the library does;
  the other operations below act on the entry at the path itself, and opening a link is
  an \<open>OSError\<close> of the model. The events record, in order, every change of the file
  system and every printed line.
\<close>

type_synonym path = "string list"

datatype node = File string | Dir | Symlink path

datatype event =
    CopyTree path path
  | Print string
  | Write path string
  | Remove path
  | Mkdir path
  | Move path path

record world =
  fs :: "path \<Rightarrow> node option"
  events :: "event list"

text \<open>A statement with effects: it returns or raises, and leaves a world behind.\<close>

type_synonym 'a io = "world \<Rightarrow> (error + 'a) \<times> world"

definition io_bind :: "'a io \<Rightarrow> ('a \<Rightarrow> 'b io) \<Rightarrow> 'b io" where
  "io_bind m f w = (case m w of (Inl e, w') \<Rightarrow> (Inl e, w') | (Inr x, w') \<Rightarrow> f x w')"

definition raise :: "error \<Rightarrow> 'a io" where
  "raise e w = (Inl e, w)"

definition return :: "'a \<Rightarrow> 'a io" where
  "return x w = (Inr x, w)"

definition path_str :: "path \<Rightarrow> string" where
  "path_str p = concat (map (\<lambda>c. CHR ''/'' # c) p)"

definition parent_is_dir :: "(path \<Rightarrow> node option) \<Rightarrow> path \<Rightarrow> bool" where
  "parent_is_dir f p = (p \<noteq> [] \<and> f (butlast p) = Some Dir)"

text \<open>
  What \<open>os.stat\<close> finds at a path: the walk goes down from the entry \<open>here\<close> through the
  components of \<open>rest\<close>, starts again from the root at the target of every link it meets,
  and gives up after \<open>fuel\<close> links. The result is a file or a directory, never a link.
\<close>

fun follow :: "nat \<Rightarrow> (path \<Rightarrow> node option) \<Rightarrow> path \<Rightarrow> path \<Rightarrow> node option" where
  "follow fuel f here rest =
     (case f here of
        None \<Rightarrow> None
      | Some (Symlink target) \<Rightarrow>
          (case fuel of 0 \<Rightarrow> None | Suc n \<Rightarrow> follow n f [] (target @ rest))
      | Some Dir \<Rightarrow>
          (case rest of [] \<Rightarrow> Some Dir | c # cs \<Rightarrow> follow fuel f (here @ [c]) cs)
      | Some (File content) \<Rightarrow>
          (case rest of [] \<Rightarrow> Some (File content) | c # cs \<Rightarrow> None))"

text \<open>
  \<open>path.exists()\<close>: true when \<open>os.stat\<close> finds an entry, so false for a link that leads
  nowhere. The kernel follows at most 40 links.
\<close>

definition exists :: "path \<Rightarrow> world \<Rightarrow> bool" where
  "exists p w = (follow 40 (fs w) [] p \<noteq> None)"

text \<open>\<open>open(path).read()\<close>\<close>

definition read_text :: "path \<Rightarrow> string io" where
  "read_text p w =
     (case fs w p of
        Some (File text) \<Rightarrow> (Inr text, w)
      | Some Dir \<Rightarrow> (Inl (IsADirectoryError p), w)
      | Some (Symlink t) \<Rightarrow> (Inl (OSError p), w)
      | None \<Rightarrow> (Inl (FileNotFoundError p), w))"

text \<open>\<open>open(path, "w").write(text)\<close>\<close>

definition write_text :: "path \<Rightarrow> string \<Rightarrow> unit io" where
  "write_text p text w =
     (if \<not> parent_is_dir (fs w) p then (Inl (FileNotFoundError p), w)
      else case fs w p of
        Some Dir \<Rightarrow> (Inl (IsADirectoryError p), w)
      | Some (Symlink t) \<Rightarrow> (Inl (OSError p), w)
      | _ \<Rightarrow> (Inr (), w\<lparr>fs := (fs w)(p \<mapsto> File text), events := events w @ [Write p text]\<rparr>))"

definition print :: "string \<Rightarrow> unit io" where
  "print line w = (Inr (), w\<lparr>events := events w @ [Print line]\<rparr>)"

text \<open>\<open>os.remove(path)\<close>\<close>

definition remove :: "path \<Rightarrow> unit io" where
  "remove p w =
     (case fs w p of
        None \<Rightarrow> (Inl (FileNotFoundError p), w)
      | Some Dir \<Rightarrow> (Inl (IsADirectoryError p), w)
      | Some _ \<Rightarrow> (Inr (), w\<lparr>fs := (fs w)(p := None), events := events w @ [Remove p]\<rparr>))"

text \<open>\<open>path.mkdir()\<close>\<close>

definition mkdir :: "path \<Rightarrow> unit io" where
  "mkdir p w =
     (if fs w p \<noteq> None then (Inl (FileExistsError p), w)
      else if \<not> parent_is_dir (fs w) p then (Inl (FileNotFoundError p), w)
      else (Inr (), w\<lparr>fs := (fs w)(p \<mapsto> Dir), events := events w @ [Mkdir p]\<rparr>))"

text \<open>
  \<open>shutil.copytree(src, dst, dirs_exist_ok=True, symlinks=True)\<close>: the destination and
  its missing parents are created, every entry below \<open>src\<close> is written to the same
  place below \<open>dst\<close>, links as links, and what \<open>dst\<close> held beside them stays. The
  library raises when an entry meets one of another kind at its destination (a file
  against a directory); the model replaces the old entry there.
\<close>

definition copied :: "path \<Rightarrow> path \<Rightarrow> (path \<Rightarrow> node option) \<Rightarrow> path \<Rightarrow> node option" where
  "copied src dst f q =
     (if prefix dst q then
        (case f (src @ drop (length dst) q) of Some n \<Rightarrow> Some n | None \<Rightarrow> f q)
      else if prefix q dst \<and> f q = None then Some Dir
      else f q)"

definition copytree :: "path \<Rightarrow> path \<Rightarrow> unit io" where
  "copytree src dst w =
     (case fs w src of
        None \<Rightarrow> (Inl (FileNotFoundError src), w)
      | Some (File text) \<Rightarrow> (Inl (NotADirectoryError src), w)
      | Some (Symlink t) \<Rightarrow> (Inl (OSError src), w)
      | Some Dir \<Rightarrow>
          if list_ex (\<lambda>q. fs w q \<noteq> None \<and> fs w q \<noteq> Some Dir) (prefixes dst)
          then (Inl (FileExistsError dst), w)
          else (Inr (), w\<lparr>fs := copied src dst (fs w),
                           events := events w @ [CopyTree src dst]\<rparr>))"

text \<open>
  \<open>shutil.move(src, dst)\<close>: when \<open>dst\<close> is a directory the source goes inside it, under
  its own name; a directory cannot go into itself; otherwise the entry and all below it
  change place.
\<close>

definition moved :: "path \<Rightarrow> path \<Rightarrow> (path \<Rightarrow> node option) \<Rightarrow> path \<Rightarrow> node option" where
  "moved src dst f q =
     (if prefix dst q then f (src @ drop (length dst) q)
      else if prefix src q then None
      else f q)"

definition move :: "path \<Rightarrow> path \<Rightarrow> unit io" where
  "move src dst w =
     (if src = [] \<or> fs w src = None then (Inl (FileNotFoundError src), w)
      else
        let real_dst = (if fs w dst = Some Dir then dst @ [last src] else dst) in
        if fs w dst = Some Dir \<and> fs w real_dst \<noteq> None then (Inl (ShutilError real_dst), w)
        else if prefix src real_dst then (Inl (ShutilError src), w)
        else if \<not> parent_is_dir (fs w) real_dst then (Inl (FileNotFoundError real_dst), w)
        else if fs w src = Some Dir \<and> fs w real_dst \<noteq> None
          then (Inl (NotADirectoryError real_dst), w)
        else (Inr (), w\<lparr>fs := moved src real_dst (fs w),
                          events := events w @ [Move src real_dst]\<rparr>))"

section \<open>The sweep for leftovers\<close>

text \<open>
  A text file is read with universal newlines: \<open>\r\n\<close> and \<open>\r\<close> arrive as \<open>\n\<close>.
  \<open>readlines\<close> cuts behind every \<open>\n\<close> and keeps it.
\<close>

fun universal_newlines :: "string \<Rightarrow> string" where
  "universal_newlines [] = []"
| "universal_newlines [c] = (if c = CHR 0x0D then [CHR 0x0A] else [c])"
| "universal_newlines (c # d # cs) =
     (if c = CHR 0x0D \<and> d = CHR 0x0A then CHR 0x0A # universal_newlines cs
      else if c = CHR 0x0D then CHR 0x0A # universal_newlines (d # cs)
      else c # universal_newlines (d # cs))"

fun lines_from :: "string \<Rightarrow> string \<Rightarrow> string list" where
  "lines_from cur [] = (if cur = [] then [] else [cur])"
| "lines_from cur (c # cs) =
     (if c = CHR 0x0A then (cur @ [c]) # lines_from [] cs else lines_from (cur @ [c]) cs)"

definition readlines :: "string \<Rightarrow> string list" where
  "readlines text = lines_from [] (universal_newlines text)"

text \<open>\<open>s.strip()\<close>: the whitespace characters of \<open>str.isspace\<close> go from both ends.\<close>

definition isspace :: "char \<Rightarrow> bool" where
  "isspace c = (of_char c \<in> {9, 10, 11, 12, 13, 28, 29, 30, 31, 32, 133, 160 :: nat})"

definition strip :: "string \<Rightarrow> string" where
  "strip s = rev (dropWhile isspace (rev (dropWhile isspace s)))"

text \<open>\<open>str(n)\<close> for a line number.\<close>

fun str_nat :: "nat \<Rightarrow> string" where
  "str_nat n =
     (if n < 10 then [''0123456789'' ! n]
      else str_nat (n div 10) @ [''0123456789'' ! (n mod 10)])"

definition warning :: "nat \<Rightarrow> string \<Rightarrow> string" where
  "warning num content =
     ''Warning: found 'poetry' in line '' @ str_nat num @ '': '' @ strip content"

text \<open>
  \<^verbatim>\<open>
  for num, content in enumerate(f.readlines(), start=1):
      if "poetry" in content:
          print(f"Warning: found 'poetry' in line {num}: {content.strip()}")
  \<close>
\<close>

fun sweep_lines :: "nat \<Rightarrow> string list \<Rightarrow> unit io" where
  "sweep_lines num [] = return ()"
| "sweep_lines num (content # rest) =
     io_bind (if contains content ''poetry'' then print (warning num content) else return ())
       (\<lambda>_. sweep_lines (Suc num) rest)"

definition validation_sweep :: "path \<Rightarrow> unit io" where
  "validation_sweep p = io_bind (read_text p) (\<lambda>text. sweep_lines 1 (readlines text))"

section \<open>The conversion\<close>

text \<open>
  \<open>tomlkit.load\<close> and \<open>tomlkit.dumps\<close> are the parser and the printer of the library,
  \<open>format_python_constraint\<close> belongs to \<open>poetry-core\<close>, and \<open>get_next_backup_path\<close>
  belongs to the module \<open>utils.py\<close>. \<open>convert\<close> only calls them: they are parameters of
  the model. The backup path may depend on what the file system holds.
\<close>

record externals =
  format_python_constraint :: "string \<Rightarrow> string"
  load :: "string \<Rightarrow> error + dict"
  dumps :: "dict \<Rightarrow> string"
  get_next_backup_path :: "(path \<Rightarrow> node option) \<Rightarrow> path \<Rightarrow> path"

text \<open>
  \<^verbatim>\<open>
  if ensure_src:
      if not (project_path / "src").exists():
          (project_path / "src").mkdir()
          shutil.move(poetry_project.module_path,
                      project_path / "src" / poetry_project.module_name)
  \<close>
\<close>

definition move_to_src :: "poetry_project \<Rightarrow> path \<Rightarrow> bool \<Rightarrow> unit io" where
  "move_to_src proj project_path ensure_src w =
     (if ensure_src then
        (if \<not> exists (project_path @ [''src'']) w then
           io_bind (mkdir (project_path @ [''src'']))
             (\<lambda>_. move (module_path proj) (project_path @ [''src'', module_name proj])) w
         else (Inr (), w))
      else (Inr (), w))"

text \<open>\<open>if (project_path / "poetry.lock").exists(): os.remove(project_path / "poetry.lock")\<close>\<close>

definition remove_lock :: "path \<Rightarrow> unit io" where
  "remove_lock project_path w =
     (if exists (project_path @ [''poetry.lock'']) w
      then remove (project_path @ [''poetry.lock'']) w
      else (Inr (), w))"

text \<open>Lines 148 to 170 of \<open>convert\<close>: everything that touches the disk or the console.\<close>

definition write_project ::
  "externals \<Rightarrow> poetry_project \<Rightarrow> path \<Rightarrow> bool \<Rightarrow> dict \<Rightarrow> unit io" where
  "write_project ext proj project_path ensure_src result w =
     (let project_backup = get_next_backup_path ext (fs w) project_path in
      io_bind (copytree project_path project_backup) (\<lambda>_.
      io_bind (print (''created backup: '' @ path_str project_backup)) (\<lambda>_.
      io_bind (write_text (project_path @ [''pyproject.toml'']) (dumps ext result)) (\<lambda>_.
      io_bind (validation_sweep (project_path @ [''pyproject.toml''])) (\<lambda>_.
      io_bind (remove_lock project_path) (\<lambda>_.
      move_to_src proj project_path ensure_src))))) w)"

text \<open>
  \<open>convert(project_path, ensure_src, virtual_project)\<close>, with the project object of line
  23 as an argument.
\<close>

definition convert ::
  "externals \<Rightarrow> poetry_project \<Rightarrow> path \<Rightarrow> bool \<Rightarrow> bool \<Rightarrow> unit io" where
  "convert ext proj project_path ensure_src virtual_project w =
     (case build_project (format_python_constraint ext) proj virtual_project of
        Inl e \<Rightarrow> (Inl e, w)
      | Inr secs \<Rightarrow>
          (case read_text (project_path @ [''pyproject.toml'']) w of
             (Inl e, w') \<Rightarrow> (Inl e, w')
           | (Inr text, w') \<Rightarrow>
               (case and_then (load ext text)
                       (\<lambda>pyproject. build_result proj pyproject ensure_src virtual_project secs) of
                  Inl e \<Rightarrow> (Inl e, w')
                | Inr result \<Rightarrow> write_project ext proj project_path ensure_src result w')))"


text \<open>A statement that only ever adds events to those of the world it starts from.\<close>

definition grows :: "'a io \<Rightarrow> bool" where
  "grows m = (\<forall>w r w'. m w = (r, w') \<longrightarrow> prefix (events w) (events w'))"

declare str_nat.simps [simp del]

declare follow.simps [simp del]

section \<open>A sample project\<close>

text \<open>
  A small Poetry project, used to run the definitions: one interpreter constraint, one
  runtime and one development dependency, a sibling tool section and a build system.
\<close>

definition sample_poetry :: dict where
  "sample_poetry =
     [(''name'', String ''demo-app''),
      (''version'', String ''0.1.0''),
      (''description'', String ''A demo''),
      (''authors'', Array [Item (String ''Jane Doe <jane@example.com>'')]),
      (''scripts'', Table [(''cli'', String ''pkg.mod:main'')])]"

definition sample_dependencies :: "dependency list" where
  "sample_dependencies =
     [\<lparr>is_python_dep = True, is_basic = True, version = ''^3.8'', is_dev = False,
       to_str = ''python^3.8''\<rparr>,
      \<lparr>is_python_dep = False, is_basic = True, version = ''^2.0'', is_dev = False,
       to_str = ''requests>=2.0,<3.0''\<rparr>,
      \<lparr>is_python_dep = False, is_basic = True, version = ''^7.0'', is_dev = True,
       to_str = ''pytest>=7.0,<8.0''\<rparr>]"

definition sample_project :: poetry_project where
  "sample_project =
     \<lparr>project_name = ''demo-app'', module_name = ''demo_app'',
      module_path = [''work'', ''demo'', ''demo_app''],
      poetry = sample_poetry, dependencies = sample_dependencies\<rparr>"

definition sample_pyproject :: dict where
  "sample_pyproject =
     [(''tool'', Table [(''poetry'', Table sample_poetry),
                        (''black'', Table [(''line-length'', Integer 88)])]),
      (''build-system'',
         Table [(''requires'', Array [Item (String ''poetry-core>=1.0'')]),
                (''build-backend'', String ''poetry.core.masonry.api'')]),
      (''custom'', Table [(''level'', Integer 3)])]"

definition sample_text :: string where
  "sample_text = ''[project]'' @ [CHR 0x0A] @ ''  # was poetry '' @ [CHR 0x0A]"

definition sample_fmt :: "string \<Rightarrow> string" where
  "sample_fmt v = ''>=3.8,<4.0''"

definition sample_externals :: externals where
  "sample_externals =
     \<lparr>format_python_constraint = sample_fmt,
      load = (\<lambda>text. Inr sample_pyproject),
      dumps = (\<lambda>d. sample_text),
      get_next_backup_path = (\<lambda>f p. butlast p @ [last p @ ''.bak''])\<rparr>"

definition sample_fs :: "path \<Rightarrow> node option" where
  "sample_fs =
     [[] \<mapsto> Dir,
      [''work''] \<mapsto> Dir,
      [''work'', ''demo''] \<mapsto> Dir,
      [''work'', ''demo'', ''pyproject.toml''] \<mapsto> File ''[tool.poetry]'',
      [''work'', ''demo'', ''poetry.lock''] \<mapsto> File ''lock'',
      [''work'', ''demo'', ''demo_app''] \<mapsto> Dir,
      [''work'', ''demo'', ''demo_app'', ''__init__.py''] \<mapsto> File ''x = 1'']"

definition sample_world :: world where
  "sample_world = \<lparr>fs = sample_fs, events = []\<rparr>"

definition sample_scripts :: dict where
  "sample_scripts =
     [(''cli'', String ''pkg.mod:main''),
      (''serve'', Table [(''callable'', String ''pkg.web:run''), (''extras'', Array [])]),
      (''bare'', Table [(''extras'', Array [])])]"


text \<open>The documents that the conversion of the sample gives, packaged and virtual.\<close>

definition sample_project_sec :: dict where
  "sample_project_sec =
     [(''name'', String ''demo-app''), (''version'', String ''0.1.0''),
      (''description'', String ''A demo''),
      (''authors'',
       Array [Item (Table [(''name'', String ''Jane Doe''),
                           (''email'', String ''jane@example.com'')])]),
      (''dependencies'',
       Array [Whitespace (CHR 0x0A # ''    ''), Item (String ''requests>=2.0,<3.0''),
              Whitespace [CHR 0x0A]]),
      (''requires-python'', String ''>=3.8,<4.0''),
      (''scripts'', Table [(''cli'', String ''pkg.mod:main'')])]"

definition sample_tool_rye_sec :: "bool \<Rightarrow> dict" where
  "sample_tool_rye_sec virtual_project =
     [(''managed'', Boolean True), (''virtual'', Boolean virtual_project),
      (''dev-dependencies'',
       Array [Whitespace (CHR 0x0A # ''    ''), Item (String ''pytest>=7.0,<8.0''),
              Whitespace [CHR 0x0A]])]"

definition sample_result :: dict where
  "sample_result =
     [(''project'', Table sample_project_sec),
      (''tool'',
       Table
        [(''rye'', Table (sample_tool_rye_sec False)),
         (''black'', Table [(''line-length'', Integer 88)]),
         (''hatch'', hatch_table [String ''src/demo_app''])]),
      (''build-system'',
       Table
        [(''requires'', Array [Item (String ''hatchling'')]),
         (''build-backend'', String ''hatchling.build'')]),
      (''custom'', Table [(''level'', Integer 3)])]"

definition sample_result_virtual :: dict where
  "sample_result_virtual =
     [(''project'', Table sample_project_sec),
      (''tool'',
       Table
        [(''rye'', Table (sample_tool_rye_sec True)),
         (''black'', Table [(''line-length'', Integer 88)])]),
      (''custom'', Table [(''level'', Integer 3)])]"

definition sample_project_no_dependencies :: poetry_project where
  "sample_project_no_dependencies = sample_project\<lparr>dependencies := []\<rparr>"

text \<open>The sample world once the backup is taken.\<close>

definition sample_backup_world :: world where
  "sample_backup_world =
     \<lparr>fs = copied [''work'', ''demo''] [''work'', ''demo.bak''] sample_fs,
      events = [CopyTree [''work'', ''demo''] [''work'', ''demo.bak'']]\<rparr>"

definition sample_result_no_dependencies :: dict where
  "sample_result_no_dependencies =
     [(''project'',
       Table
        [(''name'', String ''demo-app''), (''version'', String ''0.1.0''),
         (''description'', String ''A demo''),
         (''authors'',
          Array [Item (Table [(''name'', String ''Jane Doe''),
                              (''email'', String ''jane@example.com'')])]),
         (''dependencies'', Array [Whitespace [CHR 0x0A]]),
         (''scripts'', Table [(''cli'', String ''pkg.mod:main'')])]),
      (''tool'',
       Table
        [(''rye'', Table [(''managed'', Boolean True), (''virtual'', Boolean True)]),
         (''black'', Table [(''line-length'', Integer 88)])]),
      (''custom'', Table [(''level'', Integer 3)])]"

text \<open>
  A project with two interpreter constraints, one of them in the development group, and
  a formatter that shows which constraint it was given.
\<close>

definition echo_fmt :: "string \<Rightarrow> string" where
  "echo_fmt v = ''python '' @ v"

definition sample_project_two_python :: poetry_project where
  "sample_project_two_python =
     sample_project\<lparr>dependencies :=
       [\<lparr>is_python_dep = True, is_basic = True, version = ''^3.8'', is_dev = False,
         to_str = ''python^3.8''\<rparr>,
        \<lparr>is_python_dep = True, is_basic = True, version = ''^3.9'', is_dev = True,
         to_str = ''python^3.9''\<rparr>]\<rparr>"

definition sample_project_sec_two_python :: dict where
  "sample_project_sec_two_python =
     [(''name'', String ''demo-app''), (''version'', String ''0.1.0''),
      (''description'', String ''A demo''),
      (''authors'',
       Array [Item (Table [(''name'', String ''Jane Doe''),
                           (''email'', String ''jane@example.com'')])]),
      (''dependencies'', Array [Whitespace [CHR 0x0A]]),
      (''requires-python'', String ''python ^3.9''),
      (''scripts'', Table [(''cli'', String ''pkg.mod:main'')])]"

definition sample_result_two_python :: dict where
  "sample_result_two_python =
     [(''project'', Table sample_project_sec_two_python),
      (''tool'',
       Table
        [(''rye'', Table [(''managed'', Boolean True), (''virtual'', Boolean True)]),
         (''black'', Table [(''line-length'', Integer 88)])]),
      (''custom'', Table [(''level'', Integer 3)])]"

text \<open>
  A document that has a \<open>project\<close> section of its own and a \<open>hatch\<close> subsection beside
  \<open>poetry\<close>, with the results of its conversion, and a document whose \<open>tool\<close> section
  has a \<open>rye\<close> subsection already.
\<close>

definition sample_tool_full :: dict where
  "sample_tool_full =
     [(''poetry'', Table sample_poetry),
      (''hatch'', Table [(''version'', Table [(''path'', String ''demo_app/__init__.py'')])])]"

definition sample_pyproject_full :: dict where
  "sample_pyproject_full =
     [(''project'', Table [(''name'', String ''old-name'')]),
      (''tool'', Table sample_tool_full),
      (''build-system'',
         Table [(''requires'', Array [Item (String ''poetry-core>=1.0'')]),
                (''build-backend'', String ''poetry.core.masonry.api'')])]"

definition sample_tool_table_full :: dict where
  "sample_tool_table_full =
     [(''rye'', Table (sample_tool_rye_sec False)),
      (''hatch'', hatch_table [String ''src/demo_app''])]"

definition sample_result_full :: dict where
  "sample_result_full =
     [(''project'', Table sample_project_sec),
      (''tool'', Table sample_tool_table_full),
      (''build-system'',
       Table
        [(''requires'', Array [Item (String ''hatchling'')]),
         (''build-backend'', String ''hatchling.build'')])]"

definition sample_pyproject_rye :: dict where
  "sample_pyproject_rye =
     [(''tool'', Table [(''poetry'', Table sample_poetry),
                        (''rye'', Table [(''managed'', Boolean True)])])]"




section \<open>Facts about the string functions\<close>

lemma rfind_None: "rfind s c = None \<longleftrightarrow> c \<notin> set s"
  by (induction s) (auto split: option.splits)

lemma rfind_append_last:
  "c \<notin> set b \<Longrightarrow> rfind (a @ c # b) c = Some (length a)"
  by (induction a) (auto simp: rfind_None split: option.splits)

lemma rpartition_no_sep:
  "sep \<notin> set s \<Longrightarrow> rpartition s sep = ([], [], s)"
  using rfind_None [of s sep] by (simp add: rpartition_def)

lemma rpartition_last_sep:
  "sep \<notin> set b \<Longrightarrow> rpartition (a @ sep # b) sep = (a, [sep], b)"
  by (simp add: rpartition_def rfind_append_last)

lemma slice_strip_ends: "slice xs 1 (- 1) = butlast (tl xs)"
  by (cases xs) (auto simp: slice_def slice_index_def Let_def butlast_conv_take min_def)

text \<open>
  C4. For an author string \<open>Name <email>\<close>, whose last space is the one in front of the
  opening bracket, \<open>read_name_email\<close> returns the name and the email between the
  brackets.
\<close>

theorem read_name_email_name_email:
  assumes "CHR '' '' \<notin> set email"
  shows "read_name_email (name @ '' <'' @ email @ ''>'')
         = [(''name'', String name), (''email'', String email)]"
proof -
  have "CHR '' '' \<notin> set (''<'' @ email @ ''>'')"
    using assms by simp
  then have "rpartition (name @ CHR '' '' # (''<'' @ email @ ''>'')) CHR '' ''
             = (name, '' '', ''<'' @ email @ ''>'')"
    by (rule rpartition_last_sep)
  then show ?thesis
    by (simp add: read_name_email_def slice_strip_ends butlast_append)
qed

theorem read_name_email_jane_doe:
  "CHR '' '' \<notin> set ''jane@example.com'' \<and>
   read_name_email ''Jane Doe <jane@example.com>''
     = [(''name'', String ''Jane Doe''), (''email'', String ''jane@example.com'')]"
  using read_name_email_name_email [of "''jane@example.com''" "''Jane Doe''"] by simp

text \<open>
  C9. \<open>read_name_email\<close> returns a record for every string. The name is the text in front
  of the last space, empty when there is no space; the email is the text behind the last
  space without its first and its last character, whatever they are.
\<close>

theorem read_name_email_any_string:
  "(CHR '' '' \<notin> set s \<longrightarrow>
      read_name_email s = [(''name'', String ''''), (''email'', String (butlast (tl s)))]) \<and>
   (CHR '' '' \<notin> set b \<longrightarrow>
      read_name_email (a @ '' '' @ b)
        = [(''name'', String a), (''email'', String (butlast (tl b)))]) \<and>
   read_name_email ''jane@example.com''
     = [(''name'', String ''''), (''email'', String ''ane@example.co'')]"
proof (intro conjI impI)
  assume "CHR '' '' \<notin> set s"
  then show "read_name_email s = [(''name'', String ''''), (''email'', String (butlast (tl s)))]"
    by (simp add: read_name_email_def rpartition_no_sep slice_strip_ends)
next
  assume "CHR '' '' \<notin> set b"
  then show "read_name_email (a @ '' '' @ b)
        = [(''name'', String a), (''email'', String (butlast (tl b)))]"
    by (simp add: read_name_email_def rpartition_last_sep slice_strip_ends)
next
  have "CHR '' '' \<notin> set ''jane@example.com''"
    by simp
  then show "read_name_email ''jane@example.com''
     = [(''name'', String ''''), (''email'', String ''ane@example.co'')]"
    by (simp add: read_name_email_def rpartition_no_sep slice_strip_ends)
qed

theorem read_name_email_any_string_witness:
  "CHR '' '' \<notin> set ''solo'' \<and> CHR '' '' \<notin> set ''<j@x.org'' \<and>
   read_name_email ''solo'' = [(''name'', String ''''), (''email'', String ''ol'')] \<and>
   read_name_email ''Jane Roe <j@x.org''
     = [(''name'', String ''Jane Roe''), (''email'', String ''j@x.or'')]"
  using read_name_email_any_string [of "''solo''" "''<j@x.org''" "''Jane Roe''"] by simp

section \<open>Scripts\<close>

lemma convert_scripts_loop_other:
  "k \<notin> fst ` set kvs \<Longrightarrow> map_of (convert_scripts_loop kvs acc) k = map_of acc k"
  by (induction kvs acc rule: convert_scripts_loop.induct)
     (auto simp: update_conv' split: toml.splits)

lemma convert_scripts_loop_entry:
  "distinct (map fst kvs) \<Longrightarrow> (k, v) \<in> set kvs \<Longrightarrow>
   map_of (convert_scripts_loop kvs acc) k =
     (case v of
        String s \<Rightarrow> Some (String s)
      | Table t \<Rightarrow> Some (case map_of t ''callable'' of None \<Rightarrow> String [] | Some c \<Rightarrow> c)
      | _ \<Rightarrow> map_of acc k)"
proof (induction kvs acc rule: convert_scripts_loop.induct)
  case (1 rye_scripts)
  then show ?case by simp
next
  case (2 script_name script_value rest rye_scripts)
  show ?case
  proof (cases "(k, v) = (script_name, script_value)")
    case True
    with 2 have "k \<notin> fst ` set rest" by auto
    with True show ?thesis
      by (simp add: convert_scripts_loop_other update_conv' split: toml.splits)
  next
    case False
    with 2 have "(k, v) \<in> set rest" "distinct (map fst rest)" "k \<noteq> script_name"
      by (auto simp: image_iff)
    with 2 show ?thesis
      by (auto simp: update_conv' split: toml.splits)
  qed
qed

text \<open>
  C5. Script conversion keeps an entry whose value is a string, and maps an entry whose
  value is a table to the value of its \<open>callable\<close> field, or to the empty string when
  the table has none; the string form and the table form of one script give the same
  entry.
\<close>

theorem convert_scripts_entries:
  assumes "distinct (map fst scripts)"
  shows "\<exists>rye_scripts. convert_scripts (Table scripts) = Inr rye_scripts \<and>
     (\<forall>name s. (name, String s) \<in> set scripts \<longrightarrow> map_of rye_scripts name = Some (String s)) \<and>
     (\<forall>name t c. (name, Table t) \<in> set scripts \<and> map_of t ''callable'' = Some c \<longrightarrow>
        map_of rye_scripts name = Some c) \<and>
     (\<forall>name t. (name, Table t) \<in> set scripts \<and> map_of t ''callable'' = None \<longrightarrow>
        map_of rye_scripts name = Some (String '''')) \<and>
     convert_scripts (Table [(''cli'', String ''pkg.mod:main'')])
       = Inr [(''cli'', String ''pkg.mod:main'')] \<and>
     convert_scripts (Table [(''cli'', Table [(''callable'', String ''pkg.mod:main'')])])
       = Inr [(''cli'', String ''pkg.mod:main'')]"
proof -
  have run: "convert_scripts (Table scripts) = Inr (convert_scripts_loop scripts [])"
    by (simp add: convert_scripts_def items_def and_then_def)
  have str: "map_of (convert_scripts_loop scripts []) name = Some (String s)"
    if "(name, String s) \<in> set scripts" for name s
    using convert_scripts_loop_entry [OF assms that] by simp
  have tab: "map_of (convert_scripts_loop scripts []) name = Some c"
    if "(name, Table t) \<in> set scripts" "map_of t ''callable'' = Some c" for name t c
    using convert_scripts_loop_entry [OF assms that(1)] that(2) by simp
  have dflt: "map_of (convert_scripts_loop scripts []) name = Some (String '''')"
    if "(name, Table t) \<in> set scripts" "map_of t ''callable'' = None" for name t
    using convert_scripts_loop_entry [OF assms that(1)] that(2) by simp
  have ex1: "convert_scripts (Table [(''cli'', String ''pkg.mod:main'')])
       = Inr [(''cli'', String ''pkg.mod:main'')]"
    by (simp add: convert_scripts_def items_def and_then_def)
  have ex2: "convert_scripts (Table [(''cli'', Table [(''callable'', String ''pkg.mod:main'')])])
       = Inr [(''cli'', String ''pkg.mod:main'')]"
    by (simp add: convert_scripts_def items_def and_then_def)
  from run str tab dflt ex1 ex2 show ?thesis by blast
qed

theorem convert_scripts_entries_witness:
  "distinct (map fst sample_scripts) \<and>
   (''cli'', String ''pkg.mod:main'') \<in> set sample_scripts \<and>
   (''serve'', Table [(''callable'', String ''pkg.web:run''), (''extras'', Array [])])
      \<in> set sample_scripts \<and>
   (''bare'', Table [(''extras'', Array [])]) \<in> set sample_scripts \<and>
   (\<exists>rye_scripts. convert_scripts (Table sample_scripts) = Inr rye_scripts \<and>
      map_of rye_scripts ''cli'' = Some (String ''pkg.mod:main'') \<and>
      map_of rye_scripts ''serve'' = Some (String ''pkg.web:run'') \<and>
      map_of rye_scripts ''bare'' = Some (String ''''))"
proof -
  have d: "distinct (map fst sample_scripts)"
    by (simp add: sample_scripts_def)
  have m1: "(''cli'', String ''pkg.mod:main'') \<in> set sample_scripts"
    and m2: "(''serve'', Table [(''callable'', String ''pkg.web:run''), (''extras'', Array [])])
      \<in> set sample_scripts"
    and m3: "(''bare'', Table [(''extras'', Array [])]) \<in> set sample_scripts"
    by (simp_all add: sample_scripts_def)
  have c: "map_of [(''callable'', String ''pkg.web:run''), (''extras'', Array [])] ''callable''
     = Some (String ''pkg.web:run'')"
    and n: "map_of [(''extras'', Array [])] ''callable'' = None"
    by simp_all
  from convert_scripts_entries [OF d] obtain rye_scripts where
    r: "convert_scripts (Table sample_scripts) = Inr rye_scripts"
    and s: "\<forall>name s. (name, String s) \<in> set sample_scripts \<longrightarrow>
               map_of rye_scripts name = Some (String s)"
    and t: "\<forall>name t c. (name, Table t) \<in> set sample_scripts \<and> map_of t ''callable'' = Some c \<longrightarrow>
        map_of rye_scripts name = Some c"
    and u: "\<forall>name t. (name, Table t) \<in> set sample_scripts \<and> map_of t ''callable'' = None \<longrightarrow>
        map_of rye_scripts name = Some (String '''')"
    by blast
  from s m1 have "map_of rye_scripts ''cli'' = Some (String ''pkg.mod:main'')" by blast
  moreover from t m2 c have "map_of rye_scripts ''serve'' = Some (String ''pkg.web:run'')" by blast
  moreover from u m3 n have "map_of rye_scripts ''bare'' = Some (String '''')" by blast
  ultimately show ?thesis using d m1 m2 m3 r by blast
qed

section \<open>The sweep\<close>

lemma upt_0_Suc: "[0..<Suc n] = 0 # map Suc [0..<n]"
  by (simp add: upt_conv_Cons map_Suc_upt del: upt_Suc)

lemma world_events_same [simp]: "w\<lparr>events := events w\<rparr> = w"
  by simp

lemma sweep_lines_events:
  "sweep_lines num ls w =
     (Inr (), w\<lparr>events := events w @
        map (\<lambda>i. Print (warning (num + i) (ls ! i)))
          (filter (\<lambda>i. contains (ls ! i) ''poetry'') [0..<length ls])\<rparr>)"
proof (induction ls arbitrary: num w)
  case Nil
  show ?case by (simp add: return_def)
next
  case (Cons content rest)
  have idx: "[0..<length (content # rest)] = 0 # map Suc [0..<length rest]"
    using upt_0_Suc [of "length rest"] by simp
  show ?case
    unfolding idx
    by (simp add: io_bind_def print_def return_def Cons.IH filter_map comp_def del: upt_Suc)
qed

lemma write_text_file:
  "write_text p text w = (Inr (), w1) \<Longrightarrow> fs w1 p = Some (File text)"
  by (auto simp: write_text_def split: if_splits option.splits node.splits)

text \<open>
  The sweep of a file that has just been written: it returns, and prints one warning for
  each line of the written text that contains \<open>poetry\<close>.
\<close>

lemma validation_sweep_after_write:
  assumes "write_text p text w = (Inr (), w1)"
  shows "validation_sweep p w1 =
     (Inr (), w1\<lparr>events := events w1 @
        map (\<lambda>i. Print (''Warning: found 'poetry' in line '' @ str_nat (Suc i) @ '': ''
                          @ strip (readlines text ! i)))
          (filter (\<lambda>i. contains (readlines text ! i) ''poetry'')
             [0..<length (readlines text)])\<rparr>)"
proof -
  from assms have "fs w1 p = Some (File text)"
    by (rule write_text_file)
  then have "validation_sweep p w1 = sweep_lines 1 (readlines text) w1"
    by (simp add: validation_sweep_def io_bind_def read_text_def)
  then show ?thesis
    by (simp add: sweep_lines_events warning_def)
qed

lemma readlines_sample: "readlines sample_text = [''[project]'' @ [CHR 0x0A], ''  # was poetry '' @ [CHR 0x0A]]"
  by (simp add: sample_text_def readlines_def)

lemma sample_hits:
  "filter (\<lambda>i. contains (readlines sample_text ! i) ''poetry'')
     [0..<length (readlines sample_text)] = [Suc 0]"
  "readlines sample_text ! Suc 0 = ''  # was poetry '' @ [CHR 0x0A]"
  "str_nat (Suc (Suc 0)) = ''2''"
  by (simp_all add: readlines_sample upt_conv_Cons str_nat.simps del: upt_Suc)

section \<open>Facts about the result document\<close>

lemma and_then_Inr:
  "and_then r f = Inr y \<longleftrightarrow> (\<exists>x. r = Inr x \<and> f x = Inr y)"
  by (cases r) (simp_all add: and_then_def)

lemma getitem_Inr: "getitem d k = Inr v \<longleftrightarrow> map_of d k = Some v"
  by (simp add: getitem_def split: option.splits)

lemma items_Inr: "items x = Inr t \<longleftrightarrow> x = Table t"
  by (cases x) (simp_all add: items_def)

lemma add_Inr: "add k v d = Inr d' \<longleftrightarrow> map_of d k = None \<and> d' = d @ [(k, v)]"
  by (auto simp: add_def split: option.splits)

lemma pop_Inr: "pop k d = Inr d' \<longleftrightarrow> map_of d k \<noteq> None \<and> d' = AList.delete k d"
  by (auto simp: pop_def split: option.splits)

lemma map_of_None_iff: "map_of d k = None \<longleftrightarrow> k \<notin> fst ` set d"
  by (simp add: map_of_eq_None_iff)

lemma map_of_append_case:
  "map_of (xs @ ys) k = (case map_of xs k of Some x \<Rightarrow> Some x | None \<Rightarrow> map_of ys k)"
  by (simp add: map_add_def split: option.splits)

lemma add_items_Inr:
  "add_items kvs tt = Inr tt' \<Longrightarrow>
   tt' = tt @ kvs \<and> fst ` set kvs \<inter> fst ` set tt = {}"
proof (induction kvs arbitrary: tt)
  case Nil
  then show ?case by simp
next
  case (Cons kv kvs)
  obtain k v where kv: "kv = (k, v)" by (cases kv)
  from Cons.prems kv obtain t1 where a: "add k v tt = Inr t1" and r: "add_items kvs t1 = Inr tt'"
    by (auto split: sum.splits)
  from a have t1: "t1 = tt @ [(k, v)]" and fresh: "k \<notin> fst ` set tt"
    by (simp_all add: add_Inr map_of_None_iff)
  from Cons.IH [OF r] have "tt' = t1 @ kvs" "fst ` set kvs \<inter> fst ` set t1 = {}"
    by simp_all
  with t1 fresh kv show ?case
    by auto
qed

text \<open>What one pass of the loop body does, case by case.\<close>

lemma copy_section_tool:
  assumes "copy_section v py ''tool'' res tt = Inr (res1, tt1)"
  shows "\<exists>pt. map_of py ''tool'' = Some (Table pt) \<and>
           tt1 = AList.delete ''poetry'' (tt @ pt) \<and>
           fst ` set pt \<inter> fst ` set tt = {} \<and>
           res1 = AList.update ''tool'' (Table tt1) res"
proof -
  from assms obtain pt t1 where
    "map_of py ''tool'' = Some (Table pt)" "add_items pt tt = Inr t1"
    "pop ''poetry'' t1 = Inr tt1" "res1 = AList.update ''tool'' (Table tt1) res"
    by (auto simp: copy_section_def and_then_Inr getitem_Inr items_Inr)
  then show ?thesis
    using add_items_Inr [of pt tt t1] by (auto simp: pop_Inr)
qed

lemma copy_section_not_tool:
  assumes "copy_section v py name res tt = Inr (res1, tt1)" and "name \<noteq> ''tool''"
  shows "tt1 = tt \<and> map_of res1 ''tool'' = map_of res ''tool''"
  using assms
  by (auto simp: copy_section_def and_then_Inr update_conv' split: if_splits)

lemma copy_section_project:
  assumes "copy_section v py name res tt = Inr (res1, tt1)"
  shows "map_of res1 ''project'' = map_of res ''project''"
  using assms
  by (auto simp: copy_section_def and_then_Inr update_conv' split: if_splits)

lemma copy_section_other:
  assumes "copy_section v py name res tt = Inr (res1, tt1)"
    and "k \<noteq> ''project''" "k \<noteq> ''tool''" "k \<noteq> ''build-system''"
  shows "map_of res1 k = (if k = name then map_of py k else map_of res k)"
  using assms
  by (auto simp: copy_section_def and_then_Inr getitem_Inr update_conv' split: if_splits)

lemma copy_section_build_system:
  assumes "copy_section v py name res tt = Inr (res1, tt1)"
  shows "if name = ''build-system'' \<and> \<not> v
         then \<exists>b b'. map_of py ''build-system'' = Some b \<and> rewrite_build_system b = Inr b' \<and>
                map_of res1 ''build-system'' = Some b'
         else map_of res1 ''build-system'' = map_of res ''build-system''"
  using assms
  by (auto simp: copy_section_def and_then_Inr getitem_Inr update_conv' split: if_splits)

lemma copy_sections_Cons:
  "copy_sections v py (name # names) res tt = Inr (res', tt') \<longleftrightarrow>
   (\<exists>res1 tt1. copy_section v py name res tt = Inr (res1, tt1) \<and>
      copy_sections v py names res1 tt1 = Inr (res', tt'))"
  by (auto split: sum.splits)

lemma copy_sections_project:
  "copy_sections v py names res tt = Inr (res', tt') \<Longrightarrow>
   map_of res' ''project'' = map_of res ''project''"
proof (induction names arbitrary: res tt)
  case Nil
  then show ?case by simp
next
  case (Cons name names)
  then obtain res1 tt1 where
    "copy_section v py name res tt = Inr (res1, tt1)"
    "copy_sections v py names res1 tt1 = Inr (res', tt')"
    by (auto simp only: copy_sections_Cons)
  then show ?case
    using Cons.IH copy_section_project by metis
qed

lemma copy_sections_other:
  assumes "copy_sections v py names res tt = Inr (res', tt')"
    and "k \<noteq> ''project''" "k \<noteq> ''tool''" "k \<noteq> ''build-system''"
  shows "map_of res' k = (if k \<in> set names then map_of py k else map_of res k)"
  using assms(1)
proof (induction names arbitrary: res tt)
  case Nil
  then show ?case by simp
next
  case (Cons name names)
  then obtain res1 tt1 where
    b: "copy_section v py name res tt = Inr (res1, tt1)"
    and l: "copy_sections v py names res1 tt1 = Inr (res', tt')"
    by (auto simp only: copy_sections_Cons)
  from Cons.IH [OF l] copy_section_other [OF b assms(2-4)]
  show ?case by auto
qed

lemma copy_sections_build_system_virtual:
  "copy_sections True py names res tt = Inr (res', tt') \<Longrightarrow>
   map_of res' ''build-system'' = map_of res ''build-system''"
proof (induction names arbitrary: res tt)
  case Nil
  then show ?case by simp
next
  case (Cons name names)
  then obtain res1 tt1 where
    b: "copy_section True py name res tt = Inr (res1, tt1)"
    and l: "copy_sections True py names res1 tt1 = Inr (res', tt')"
    by (auto simp only: copy_sections_Cons)
  from Cons.IH [OF l] copy_section_build_system [OF b]
  show ?case by simp
qed

lemma copy_sections_build_system:
  "copy_sections False py names res tt = Inr (res', tt') \<Longrightarrow>
   (if ''build-system'' \<in> set names
    then \<exists>b b'. map_of py ''build-system'' = Some b \<and> rewrite_build_system b = Inr b' \<and>
           map_of res' ''build-system'' = Some b'
    else map_of res' ''build-system'' = map_of res ''build-system'')"
proof (induction names arbitrary: res tt)
  case Nil
  then show ?case by simp
next
  case (Cons name names)
  then obtain res1 tt1 where
    b: "copy_section False py name res tt = Inr (res1, tt1)"
    and l: "copy_sections False py names res1 tt1 = Inr (res', tt')"
    by (auto simp only: copy_sections_Cons)
  from Cons.IH [OF l] copy_section_build_system [OF b]
  show ?case by (auto split: if_splits)
qed

lemma copy_sections_no_tool:
  "copy_sections v py names res tt = Inr (res', tt') \<Longrightarrow> ''tool'' \<notin> set names \<Longrightarrow>
   tt' = tt \<and> map_of res' ''tool'' = map_of res ''tool''"
proof (induction names arbitrary: res tt)
  case Nil
  then show ?case by simp
next
  case (Cons name names)
  then obtain res1 tt1 where
    b: "copy_section v py name res tt = Inr (res1, tt1)"
    and l: "copy_sections v py names res1 tt1 = Inr (res', tt')"
    by (auto simp only: copy_sections_Cons)
  from Cons.prems have "name \<noteq> ''tool''" "''tool'' \<notin> set names" by auto
  with Cons.IH [OF l] copy_section_not_tool [OF b]
  show ?case by simp
qed

lemma copy_sections_tool:
  "copy_sections v py names res tt = Inr (res', tt') \<Longrightarrow> ''tool'' \<in> set names \<Longrightarrow>
   \<exists>pt. map_of py ''tool'' = Some (Table pt) \<and>
     map_of res' ''tool'' = Some (Table tt') \<and>
     map_of tt' ''poetry'' = None \<and>
     (\<forall>k. k \<noteq> ''poetry'' \<longrightarrow>
        map_of tt' k = (case map_of tt k of Some x \<Rightarrow> Some x | None \<Rightarrow> map_of pt k)) \<and>
     fst ` set pt \<inter> fst ` set tt = {}"
proof (induction names arbitrary: res tt)
  case Nil
  then show ?case by simp
next
  case (Cons name names)
  then obtain res1 tt1 where
    b: "copy_section v py name res tt = Inr (res1, tt1)"
    and l: "copy_sections v py names res1 tt1 = Inr (res', tt')"
    by (auto simp only: copy_sections_Cons)
  show ?case
  proof (cases "name = ''tool''")
    case False
    with Cons.prems have "''tool'' \<in> set names" by simp
    from Cons.IH [OF l this] copy_section_not_tool [OF b False]
    show ?thesis by simp
  next
    case True
    from copy_section_tool [OF b [unfolded True]] obtain pt where
      pt: "map_of py ''tool'' = Some (Table pt)"
      and tt1: "tt1 = AList.delete ''poetry'' (tt @ pt)"
      and disj: "fst ` set pt \<inter> fst ` set tt = {}"
      and res1: "res1 = AList.update ''tool'' (Table tt1) res"
      by blast
    have first: "map_of tt1 ''poetry'' = None"
      "\<And>k. k \<noteq> ''poetry'' \<Longrightarrow>
         map_of tt1 k = (case map_of tt k of Some x \<Rightarrow> Some x | None \<Rightarrow> map_of pt k)"
      by (simp_all add: tt1 delete_conv' map_add_def split: option.splits)
    show ?thesis
    proof (cases "''tool'' \<in> set names")
      case False
      from copy_sections_no_tool [OF l False] res1
      have "tt' = tt1" "map_of res' ''tool'' = Some (Table tt1)"
        by (simp_all add: update_conv')
      with pt first disj show ?thesis by simp
    next
      case True
      from Cons.IH [OF l True] pt have
        a: "map_of res' ''tool'' = Some (Table tt')"
        and b: "map_of tt' ''poetry'' = None"
        and c: "\<And>k. k \<noteq> ''poetry'' \<Longrightarrow>
          map_of tt' k = (case map_of tt1 k of Some x \<Rightarrow> Some x | None \<Rightarrow> map_of pt k)"
        by auto
      have "map_of tt' k = (case map_of tt k of Some x \<Rightarrow> Some x | None \<Rightarrow> map_of pt k)"
        if "k \<noteq> ''poetry''" for k
        using c [OF that] first(2) [OF that] by (simp split: option.splits)
      with pt a b disj show ?thesis by simp
    qed
  qed
qed

lemma filterfalse_in_strings:
  "filterfalse_in sub (map String ss) = Inr (map String (filter (\<lambda>s. \<not> contains s sub) ss))"
  by (induction ss) (simp_all add: py_in_def)

lemma rewrite_build_system_strings:
  assumes "map_of t ''requires'' = Some (Array es)" and "values_of es = map String ss"
  shows "rewrite_build_system (Table t) =
     Inr (Table (AList.update ''build-backend'' (String ''hatchling.build'')
       (AList.update ''requires''
          (Array (map Item (map String (filter (\<lambda>s. \<not> contains s ''poetry-core'') ss)
                            @ [String ''hatchling''])))
          t)))"
  using assms
  by (simp add: rewrite_build_system_def subscript_def getitem_def iterate_def items_def
      and_then_def filterfalse_in_strings)

lemma add_hatch_Inr:
  assumes "add_hatch proj ensure_src res = Inr result"
  shows "\<exists>packages tt. packages_of proj ensure_src = Inr packages \<and>
           map_of res ''tool'' = Some (Table tt) \<and>
           result = AList.update ''tool''
                      (Table (AList.update ''hatch'' (hatch_table packages) tt)) res"
  using assms by (auto simp: add_hatch_def and_then_Inr getitem_Inr items_Inr)

lemma build_result_Inr:
  assumes "build_result proj py ensure_src v (ps, us, tr) = Inr result"
  shows "\<exists>res0 res' tt'.
           map_of res0 ''project'' = Some (Table ps) \<and>
           map_of res0 ''tool'' = None \<and> map_of res0 ''build-system'' = None \<and>
           copy_sections v py (map fst py) res0 [(''rye'', Table tr)] = Inr (res', tt') \<and>
           (if v then result = res' else add_hatch proj ensure_src res' = Inr result)"
proof -
  let ?res0 = "if us \<noteq> [] then AList.update ''project.urls'' (Table us) [(''project'', Table ps)]
               else [(''project'', Table ps)]"
  from assms obtain res' tt' where
    "copy_sections v py (map fst py) ?res0 [(''rye'', Table tr)] = Inr (res', tt')"
    "if v then result = res' else add_hatch proj ensure_src res' = Inr result"
    by (auto simp: build_result_def Let_def and_then_Inr add_Inr split: if_splits)
  moreover have "map_of ?res0 ''project'' = Some (Table ps)"
    "map_of ?res0 ''tool'' = None" "map_of ?res0 ''build-system'' = None"
    by simp_all
  ultimately show ?thesis by blast
qed

lemma build_result_project:
  assumes "build_result proj py ensure_src v (ps, us, tr) = Inr result"
  shows "map_of result ''project'' = Some (Table ps)"
proof -
  from build_result_Inr [OF assms] obtain res0 res' tt' where
    p: "map_of res0 ''project'' = Some (Table ps)"
    and l: "copy_sections v py (map fst py) res0 [(''rye'', Table tr)] = Inr (res', tt')"
    and h: "if v then result = res' else add_hatch proj ensure_src res' = Inr result"
    by blast
  from copy_sections_project [OF l] p have "map_of res' ''project'' = Some (Table ps)"
    by simp
  with h show ?thesis
    by (auto simp: update_conv' split: if_splits dest!: add_hatch_Inr)
qed

lemma build_result_other:
  assumes "build_result proj py ensure_src v (ps, us, tr) = Inr result"
    and "k \<in> fst ` set py" "k \<noteq> ''project''" "k \<noteq> ''tool''" "k \<noteq> ''build-system''"
  shows "map_of result k = map_of py k"
proof -
  from build_result_Inr [OF assms(1)] obtain res0 res' tt' where
    l: "copy_sections v py (map fst py) res0 [(''rye'', Table tr)] = Inr (res', tt')"
    and h: "if v then result = res' else add_hatch proj ensure_src res' = Inr result"
    by blast
  from copy_sections_other [OF l assms(3-5)] assms(2) have "map_of res' k = map_of py k"
    by simp
  with h assms(4) show ?thesis
    by (auto simp: update_conv' split: if_splits dest!: add_hatch_Inr)
qed

lemma build_result_build_system_virtual:
  assumes "build_result proj py ensure_src True (ps, us, tr) = Inr result"
  shows "map_of result ''build-system'' = None"
proof -
  from build_result_Inr [OF assms] obtain res0 res' tt' where
    "map_of res0 ''build-system'' = None"
    "copy_sections True py (map fst py) res0 [(''rye'', Table tr)] = Inr (res', tt')"
    "result = res'"
    by auto
  then show ?thesis
    using copy_sections_build_system_virtual by metis
qed

lemma build_result_build_system:
  assumes "build_result proj py ensure_src False (ps, us, tr) = Inr result"
    and "map_of py ''build-system'' = Some b"
  shows "\<exists>b'. rewrite_build_system b = Inr b' \<and> map_of result ''build-system'' = Some b'"
proof -
  from build_result_Inr [OF assms(1)] obtain res0 res' tt' where
    l: "copy_sections False py (map fst py) res0 [(''rye'', Table tr)] = Inr (res', tt')"
    and h: "add_hatch proj ensure_src res' = Inr result"
    by auto
  from assms(2) have "''build-system'' \<in> set (map fst py)"
    by (auto dest!: map_of_SomeD simp: image_iff intro!: bexI [of _ "(''build-system'', b)"])
  with copy_sections_build_system [OF l] assms(2) obtain b' where
    "rewrite_build_system b = Inr b'" "map_of res' ''build-system'' = Some b'"
    by auto
  with h show ?thesis
    by (auto simp: update_conv' dest!: add_hatch_Inr)
qed

lemma build_result_tool:
  assumes "build_result proj py ensure_src v (ps, us, tr) = Inr result"
    and "map_of py ''tool'' \<noteq> None"
  shows "\<exists>pt tt. map_of py ''tool'' = Some (Table pt) \<and>
           map_of result ''tool'' = Some (Table tt) \<and>
           map_of tt ''rye'' = Some (Table tr) \<and>
           map_of tt ''poetry'' = None \<and>
           map_of pt ''rye'' = None \<and>
           (\<forall>k. k \<noteq> ''poetry'' \<and> k \<noteq> ''rye'' \<and> k \<noteq> ''hatch'' \<longrightarrow> map_of tt k = map_of pt k) \<and>
           (if v then map_of tt ''hatch'' = map_of pt ''hatch''
            else \<exists>packages. packages_of proj ensure_src = Inr packages \<and>
                   map_of tt ''hatch'' = Some (hatch_table packages))"
proof -
  from build_result_Inr [OF assms(1)] obtain res0 res' tt' where
    l: "copy_sections v py (map fst py) res0 [(''rye'', Table tr)] = Inr (res', tt')"
    and h: "if v then result = res' else add_hatch proj ensure_src res' = Inr result"
    by blast
  from assms(2) have "''tool'' \<in> set (map fst py)"
    by (simp add: map_of_eq_None_iff)
  from copy_sections_tool [OF l this] obtain pt where
    pt: "map_of py ''tool'' = Some (Table pt)"
    and rt: "map_of res' ''tool'' = Some (Table tt')"
    and po: "map_of tt' ''poetry'' = None"
    and sib: "\<And>k. k \<noteq> ''poetry'' \<Longrightarrow>
        map_of tt' k = (case map_of [(''rye'', Table tr)] k of Some x \<Rightarrow> Some x
                        | None \<Rightarrow> map_of pt k)"
    and disj: "fst ` set pt \<inter> fst ` set [(''rye'', Table tr)] = {}"
    by blast
  from disj have norye: "map_of pt ''rye'' = None"
    by (simp add: map_of_eq_None_iff)
  from sib have rye: "map_of tt' ''rye'' = Some (Table tr)"
    by simp
  from sib have sib': "map_of tt' k = map_of pt k" if "k \<noteq> ''poetry''" "k \<noteq> ''rye''" for k
    using that by simp
  show ?thesis
  proof (cases v)
    case True
    with h have "result = res'" by simp
    with True pt rt po rye norye sib' show ?thesis by simp
  next
    case False
    with h have "add_hatch proj ensure_src res' = Inr result" by simp
    from add_hatch_Inr [OF this] rt obtain packages where
      pk: "packages_of proj ensure_src = Inr packages"
      and r: "result = AList.update ''tool''
                      (Table (AList.update ''hatch'' (hatch_table packages) tt')) res'"
      by auto
    let ?tt = "AList.update ''hatch'' (hatch_table packages) tt'"
    have "map_of result ''tool'' = Some (Table ?tt)"
      by (simp add: r update_conv')
    moreover have "map_of ?tt ''rye'' = Some (Table tr)" "map_of ?tt ''poetry'' = None"
      "map_of ?tt ''hatch'' = Some (hatch_table packages)"
      using rye po by (simp_all add: update_conv')
    moreover have "\<forall>k. k \<noteq> ''poetry'' \<and> k \<noteq> ''rye'' \<and> k \<noteq> ''hatch'' \<longrightarrow>
                     map_of ?tt k = map_of pt k"
      using sib' by (simp add: update_conv')
    ultimately show ?thesis
      using False pt pk norye by auto
  qed
qed

lemma convert_document_Inr:
  assumes "convert_document fmt proj py ensure_src v = Inr result"
  shows "\<exists>ps us tr. build_project fmt proj v = Inr (ps, us, tr) \<and>
           build_result proj py ensure_src v (ps, us, tr) = Inr result"
  using assms by (auto simp: convert_document_def and_then_Inr)

section \<open>Facts about the dependency loop\<close>

lemma add_line_at_Inr:
  "add_line_at k xs indent d = Inr d' \<longleftrightarrow>
   (\<exists>es. map_of d k = Some (Array es) \<and>
      d' = AList.update k (Array (es @ Whitespace (CHR 0x0A # indent) # map Item xs)) d)"
proof -
  have "add_line xs indent a = Inr a' \<longleftrightarrow>
        (\<exists>es. a = Array es \<and> a' = Array (es @ Whitespace (CHR 0x0A # indent) # map Item xs))"
    for a a'
    by (cases a) (auto simp: add_line_def)
  then show ?thesis
    by (auto simp: add_line_at_def and_then_Inr getitem_Inr)
qed

lemma dependencies_loop_Cons:
  "dependencies_loop fmt (dep # deps) ps tr = Inr (ps', tr') \<longleftrightarrow>
   (if is_python_dep dep then
      is_basic dep \<and>
      dependencies_loop fmt deps
        (AList.update ''requires-python'' (String (fmt (version dep))) ps) tr = Inr (ps', tr')
    else if is_dev dep then
      (\<exists>tr1. add_line_at ''dev-dependencies'' [String (to_str dep)] ''    ''
               (setdefault ''dev-dependencies'' (Array []) tr) = Inr tr1 \<and>
             dependencies_loop fmt deps ps tr1 = Inr (ps', tr'))
    else
      (\<exists>ps1. add_line_at ''dependencies'' [String (to_str dep)] ''    '' ps = Inr ps1 \<and>
             dependencies_loop fmt deps ps1 tr = Inr (ps', tr')))"
  by (auto split: sum.splits)

declare dependencies_loop.simps(2) [simp del]

lemma dependencies_loop_other:
  assumes "dependencies_loop fmt deps ps tr = Inr (ps', tr')"
  shows "(k \<noteq> ''dependencies'' \<and> k \<noteq> ''requires-python'' \<longrightarrow> map_of ps' k = map_of ps k) \<and>
         (k \<noteq> ''dev-dependencies'' \<longrightarrow> map_of tr' k = map_of tr k)"
  using assms
proof (induction deps arbitrary: ps tr)
  case Nil
  then show ?case by simp
next
  case (Cons dep deps)
  from Cons.prems obtain ps1 tr1 where
    l: "dependencies_loop fmt deps ps1 tr1 = Inr (ps', tr')"
    and p: "k \<noteq> ''dependencies'' \<and> k \<noteq> ''requires-python'' \<longrightarrow> map_of ps1 k = map_of ps k"
    and t: "k \<noteq> ''dev-dependencies'' \<longrightarrow> map_of tr1 k = map_of tr k"
    unfolding dependencies_loop_Cons
    by (auto simp: add_line_at_Inr update_conv' setdefault_def
        split: if_splits option.splits)
  from Cons.IH [OF l] p t show ?case
    by simp
qed

text \<open>The lines that the loop adds to an array for a list of dependencies.\<close>

lemma dependencies_loop_runtime:
  assumes "dependencies_loop fmt deps ps tr = Inr (ps', tr')"
    and "map_of ps ''dependencies'' = Some (Array es)"
  shows "map_of ps' ''dependencies'' =
     Some (Array (es @ concat (map (\<lambda>d. [Whitespace (CHR 0x0A # ''    ''), Item (String (to_str d))])
                   (filter (\<lambda>d. \<not> is_python_dep d \<and> \<not> is_dev d) deps))))"
  using assms
proof (induction deps arbitrary: ps tr es)
  case Nil
  then show ?case by simp
next
  case (Cons dep deps)
  show ?case
  proof (cases "is_python_dep dep")
    case True
    with Cons.prems have
      "dependencies_loop fmt deps
        (AList.update ''requires-python'' (String (fmt (version dep))) ps) tr = Inr (ps', tr')"
      by (simp only: dependencies_loop_Cons if_True)
    from Cons.IH [OF this, of es] Cons.prems(2) True show ?thesis
      by (simp add: update_conv')
  next
    case py: False
    show ?thesis
    proof (cases "is_dev dep")
      case True
      with py Cons.prems obtain tr1 where "dependencies_loop fmt deps ps tr1 = Inr (ps', tr')"
        by (auto simp only: dependencies_loop_Cons if_True if_False)
      from Cons.IH [OF this Cons.prems(2)] py True show ?thesis
        by simp
    next
      case False
      with py Cons.prems obtain ps1 where
        a: "add_line_at ''dependencies'' [String (to_str dep)] ''    '' ps = Inr ps1"
        and l: "dependencies_loop fmt deps ps1 tr = Inr (ps', tr')"
        by (auto simp only: dependencies_loop_Cons if_True if_False)
      from a Cons.prems(2) have
        "map_of ps1 ''dependencies'' =
           Some (Array ((es @ [Whitespace (CHR 0x0A # ''    ''), Item (String (to_str dep))])))"
        by (auto simp: add_line_at_Inr update_conv')
      from Cons.IH [OF l this] py False show ?thesis
        by simp
    qed
  qed
qed

lemma dependencies_loop_dev_some:
  assumes "dependencies_loop fmt deps ps tr = Inr (ps', tr')"
    and "map_of tr ''dev-dependencies'' = Some (Array es)"
  shows "map_of tr' ''dev-dependencies'' =
     Some (Array (es @ concat (map (\<lambda>d. [Whitespace (CHR 0x0A # ''    ''), Item (String (to_str d))])
                   (filter (\<lambda>d. \<not> is_python_dep d \<and> is_dev d) deps))))"
  using assms
proof (induction deps arbitrary: ps tr es)
  case Nil
  then show ?case by simp
next
  case (Cons dep deps)
  show ?case
  proof (cases "is_python_dep dep")
    case True
    with Cons.prems have
      "dependencies_loop fmt deps
        (AList.update ''requires-python'' (String (fmt (version dep))) ps) tr = Inr (ps', tr')"
      by (simp only: dependencies_loop_Cons if_True)
    from Cons.IH [OF this Cons.prems(2)] True show ?thesis
      by simp
  next
    case py: False
    show ?thesis
    proof (cases "is_dev dep")
      case False
      with py Cons.prems obtain ps1 where "dependencies_loop fmt deps ps1 tr = Inr (ps', tr')"
        by (auto simp only: dependencies_loop_Cons if_True if_False)
      from Cons.IH [OF this Cons.prems(2)] py False show ?thesis
        by simp
    next
      case True
      with py Cons.prems obtain tr1 where
        a: "add_line_at ''dev-dependencies'' [String (to_str dep)] ''    ''
               (setdefault ''dev-dependencies'' (Array []) tr) = Inr tr1"
        and l: "dependencies_loop fmt deps ps tr1 = Inr (ps', tr')"
        by (auto simp only: dependencies_loop_Cons if_True if_False)
      from a Cons.prems(2) have
        "map_of tr1 ''dev-dependencies'' =
           Some (Array ((es @ [Whitespace (CHR 0x0A # ''    ''), Item (String (to_str dep))])))"
        by (auto simp: add_line_at_Inr update_conv' setdefault_def)
      from Cons.IH [OF l this] py True show ?thesis
        by simp
    qed
  qed
qed

lemma dependencies_loop_dev_none:
  assumes "dependencies_loop fmt deps ps tr = Inr (ps', tr')"
    and "map_of tr ''dev-dependencies'' = None"
  shows "map_of tr' ''dev-dependencies'' =
     (if filter (\<lambda>d. \<not> is_python_dep d \<and> is_dev d) deps = [] then None
      else Some (Array (concat (map (\<lambda>d. [Whitespace (CHR 0x0A # ''    ''), Item (String (to_str d))])
                   (filter (\<lambda>d. \<not> is_python_dep d \<and> is_dev d) deps)))))"
  using assms
proof (induction deps arbitrary: ps tr)
  case Nil
  then show ?case by simp
next
  case (Cons dep deps)
  show ?case
  proof (cases "is_python_dep dep")
    case True
    with Cons.prems have
      "dependencies_loop fmt deps
        (AList.update ''requires-python'' (String (fmt (version dep))) ps) tr = Inr (ps', tr')"
      by (simp only: dependencies_loop_Cons if_True)
    from Cons.IH [OF this Cons.prems(2)] True show ?thesis
      by simp
  next
    case py: False
    show ?thesis
    proof (cases "is_dev dep")
      case False
      with py Cons.prems obtain ps1 where "dependencies_loop fmt deps ps1 tr = Inr (ps', tr')"
        by (auto simp only: dependencies_loop_Cons if_True if_False)
      from Cons.IH [OF this Cons.prems(2)] py False show ?thesis
        by simp
    next
      case True
      with py Cons.prems obtain tr1 where
        a: "add_line_at ''dev-dependencies'' [String (to_str dep)] ''    ''
               (setdefault ''dev-dependencies'' (Array []) tr) = Inr tr1"
        and l: "dependencies_loop fmt deps ps tr1 = Inr (ps', tr')"
        by (auto simp only: dependencies_loop_Cons if_True if_False)
      from a Cons.prems(2) have
        "map_of tr1 ''dev-dependencies'' =
           Some (Array ([] @ [Whitespace (CHR 0x0A # ''    ''), Item (String (to_str dep))]))"
        by (auto simp: add_line_at_Inr update_conv' setdefault_def)
      from dependencies_loop_dev_some [OF l this] py True show ?thesis
        by simp
    qed
  qed
qed

lemma dependencies_loop_python:
  assumes "dependencies_loop fmt deps ps tr = Inr (ps', tr')"
  shows "map_of ps' ''requires-python'' =
     (if filter is_python_dep deps = [] then map_of ps ''requires-python''
      else Some (String (fmt (version (last (filter is_python_dep deps))))))"
  using assms
proof (induction deps arbitrary: ps tr)
  case Nil
  then show ?case by simp
next
  case (Cons dep deps)
  show ?case
  proof (cases "is_python_dep dep")
    case True
    with Cons.prems have
      "dependencies_loop fmt deps
        (AList.update ''requires-python'' (String (fmt (version dep))) ps) tr = Inr (ps', tr')"
      by (simp only: dependencies_loop_Cons if_True)
    from Cons.IH [OF this] True show ?thesis
      by (simp add: update_conv')
  next
    case False
    with Cons.prems obtain ps1 tr1 where
      l: "dependencies_loop fmt deps ps1 tr1 = Inr (ps', tr')"
      and p: "map_of ps1 ''requires-python'' = map_of ps ''requires-python''"
      unfolding dependencies_loop_Cons
      by (auto simp: add_line_at_Inr update_conv' split: if_splits)
    from Cons.IH [OF l] p False show ?thesis
      by simp
  qed
qed

lemma convert_dependencies_Inr:
  assumes "convert_dependencies fmt deps ps tr = Inr (ps', tr')"
    and "map_of tr ''dev-dependencies'' = None"
  shows "map_of ps' ''dependencies'' =
     Some (Array (concat (map (\<lambda>d. [Whitespace (CHR 0x0A # ''    ''), Item (String (to_str d))])
                   (filter (\<lambda>d. \<not> is_python_dep d \<and> \<not> is_dev d) deps))
                  @ [Whitespace [CHR 0x0A]]))"
    and "map_of ps' ''requires-python'' =
     (if filter is_python_dep deps = [] then map_of ps ''requires-python''
      else Some (String (fmt (version (last (filter is_python_dep deps))))))"
    and "map_of tr' ''dev-dependencies'' =
     (if filter (\<lambda>d. \<not> is_python_dep d \<and> is_dev d) deps = [] then None
      else Some (Array (concat (map (\<lambda>d. [Whitespace (CHR 0x0A # ''    ''), Item (String (to_str d))])
                   (filter (\<lambda>d. \<not> is_python_dep d \<and> is_dev d) deps))
                  @ [Whitespace [CHR 0x0A]])))"
    and "k \<noteq> ''dependencies'' \<Longrightarrow> k \<noteq> ''requires-python'' \<Longrightarrow> map_of ps' k = map_of ps k"
    and "k \<noteq> ''dev-dependencies'' \<Longrightarrow> map_of tr' k = map_of tr k"
proof -
  let ?ps0 = "AList.update ''dependencies'' (Array []) ps"
  define run where "run = concat (map (\<lambda>d. [Whitespace (CHR 0x0A # ''    ''), Item (String (to_str d))])
                   (filter (\<lambda>d. \<not> is_python_dep d \<and> \<not> is_dev d) deps))"
  define dev where "dev = (if filter (\<lambda>d. \<not> is_python_dep d \<and> is_dev d) deps = [] then None
      else Some (Array (concat (map (\<lambda>d. [Whitespace (CHR 0x0A # ''    ''), Item (String (to_str d))])
                   (filter (\<lambda>d. \<not> is_python_dep d \<and> is_dev d) deps)))))"
  define py where "py = (if filter is_python_dep deps = [] then map_of ps ''requires-python''
      else Some (String (fmt (version (last (filter is_python_dep deps))))))"
  from assms(1) obtain ps1 tr1 where
    l: "dependencies_loop fmt deps ?ps0 tr = Inr (ps1, tr1)"
    and t: "(if map_of tr1 ''dev-dependencies'' \<noteq> None
             then add_line_at ''dev-dependencies'' [] [] tr1 else Inr tr1) = Inr tr'"
    and p: "add_line_at ''dependencies'' [] [] ps1 = Inr ps'"
    unfolding convert_dependencies_def by (auto simp: and_then_Inr)
  have ps0: "map_of ?ps0 ''dependencies'' = Some (Array [])"
    by (simp add: update_conv')
  have run: "map_of ps1 ''dependencies'' = Some (Array run)"
    using dependencies_loop_runtime [OF l ps0] by (simp add: run_def)
  have py: "map_of ps1 ''requires-python'' = py"
    using dependencies_loop_python [OF l] by (simp add: py_def update_conv')
  have dev: "map_of tr1 ''dev-dependencies'' = dev"
    using dependencies_loop_dev_none [OF l assms(2)] by (simp add: dev_def)
  note other = dependencies_loop_other [OF l]
  from p obtain es where
    p': "map_of ps1 ''dependencies'' = Some (Array es)"
        "ps' = AList.update ''dependencies'' (Array (es @ [Whitespace [CHR 0x0A]])) ps1"
    by (auto simp: add_line_at_Inr)
  from p' run have "map_of ps' ''dependencies'' = Some (Array (run @ [Whitespace [CHR 0x0A]]))"
    by (simp add: update_conv')
  then show "map_of ps' ''dependencies'' =
     Some (Array (concat (map (\<lambda>d. [Whitespace (CHR 0x0A # ''    ''), Item (String (to_str d))])
                   (filter (\<lambda>d. \<not> is_python_dep d \<and> \<not> is_dev d) deps))
                  @ [Whitespace [CHR 0x0A]]))"
    by (simp only: run_def)
  from p' py have "map_of ps' ''requires-python'' = py"
    by (simp add: update_conv')
  then show "map_of ps' ''requires-python'' =
     (if filter is_python_dep deps = [] then map_of ps ''requires-python''
      else Some (String (fmt (version (last (filter is_python_dep deps))))))"
    by (simp only: py_def)
  have "map_of tr' ''dev-dependencies'' =
     (case dev of None \<Rightarrow> None
      | Some a \<Rightarrow> (case a of Array es \<Rightarrow> Some (Array (es @ [Whitespace [CHR 0x0A]])) | _ \<Rightarrow> None))"
  proof (cases dev)
    case None
    with t dev show ?thesis by simp
  next
    case (Some a)
    with t dev obtain es where "a = Array es"
      "tr' = AList.update ''dev-dependencies'' (Array (es @ [Whitespace [CHR 0x0A]])) tr1"
      by (auto simp: add_line_at_Inr)
    with Some show ?thesis by (simp add: update_conv')
  qed
  then show "map_of tr' ''dev-dependencies'' =
     (if filter (\<lambda>d. \<not> is_python_dep d \<and> is_dev d) deps = [] then None
      else Some (Array (concat (map (\<lambda>d. [Whitespace (CHR 0x0A # ''    ''), Item (String (to_str d))])
                   (filter (\<lambda>d. \<not> is_python_dep d \<and> is_dev d) deps))
                  @ [Whitespace [CHR 0x0A]])))"
    by (simp add: dev_def)
  show "map_of ps' k = map_of ps k"
    if "k \<noteq> ''dependencies''" "k \<noteq> ''requires-python''"
    using that p'(2) other [of k] by (simp add: update_conv')
  show "map_of tr' k = map_of tr k" if "k \<noteq> ''dev-dependencies''"
  proof (cases "map_of tr1 ''dev-dependencies''")
    case None
    with t other [of k] that show ?thesis by simp
  next
    case (Some a)
    with t obtain a' where "tr' = AList.update ''dev-dependencies'' a' tr1"
      by (auto simp: add_line_at_Inr)
    with other [of k] that show ?thesis by (simp add: update_conv')
  qed
qed

lemma set_people_other:
  "set_people key xs d = Inr d' \<Longrightarrow> k \<noteq> key \<Longrightarrow> map_of d' k = map_of d k"
  by (auto simp: set_people_def and_then_Inr update_conv')

lemma copy_if_set_other:
  "k \<noteq> k' \<Longrightarrow> map_of (copy_if_set src k0 k' dst) k = map_of dst k"
  by (simp add: copy_if_set_def update_conv' split: option.splits)

lemma describe_project_requires_python:
  assumes "describe_project proj = Inr (sec, us)"
  shows "map_of sec ''requires-python'' = None"
proof -
  from assms obtain ver description authors maintainers sec1 sec2 where
    s1: "set_people ''authors'' authors
           [(''name'', String (project_name proj)), (''version'', ver),
            (''description'', description)] = Inr sec1"
    and s2: "set_people ''maintainers'' maintainers sec1 = Inr sec2"
    and sec: "sec = copy_if_set (poetry proj) ''classifiers'' ''classifiers''
                 (copy_if_set (poetry proj) ''keywords'' ''keywords''
                   (copy_if_set (poetry proj) ''readme'' ''readme'' sec2))"
    unfolding describe_project_def by (auto simp: and_then_Inr)
  have "map_of sec ''requires-python'' = map_of sec2 ''requires-python''"
    by (simp add: sec copy_if_set_other)
  also have "\<dots> = None"
    using set_people_other [OF s2, of "''requires-python''"]
      set_people_other [OF s1, of "''requires-python''"] by simp
  finally show ?thesis .
qed

lemma set_scripts_other:
  "set_scripts poetry_sec sec = Inr sec' \<Longrightarrow> k \<noteq> ''scripts'' \<Longrightarrow> map_of sec' k = map_of sec k"
  by (auto simp: set_scripts_def and_then_Inr update_conv' split: option.splits if_splits)

lemma build_project_Inr:
  assumes "build_project fmt proj v = Inr (ps, us, tr)"
  shows "map_of ps ''dependencies'' =
     Some (Array (concat (map (\<lambda>d. [Whitespace (CHR 0x0A # ''    ''), Item (String (to_str d))])
                   (filter (\<lambda>d. \<not> is_python_dep d \<and> \<not> is_dev d) (dependencies proj)))
                  @ [Whitespace [CHR 0x0A]]))"
    and "map_of ps ''requires-python'' =
     (if filter is_python_dep (dependencies proj) = [] then None
      else Some (String (fmt (version (last (filter is_python_dep (dependencies proj)))))))"
    and "map_of tr ''dev-dependencies'' =
     (if filter (\<lambda>d. \<not> is_python_dep d \<and> is_dev d) (dependencies proj) = [] then None
      else Some (Array (concat (map (\<lambda>d. [Whitespace (CHR 0x0A # ''    ''), Item (String (to_str d))])
                   (filter (\<lambda>d. \<not> is_python_dep d \<and> is_dev d) (dependencies proj)))
                  @ [Whitespace [CHR 0x0A]])))"
    and "map_of tr ''managed'' = Some (Boolean True)"
    and "map_of tr ''virtual'' = Some (Boolean v)"
proof -
  let ?tr0 = "[(''managed'', Boolean True), (''virtual'', Boolean v)]"
  from assms obtain sec sec' where
    d: "describe_project proj = Inr (sec, us)"
    and cd: "convert_dependencies fmt (dependencies proj) sec ?tr0 = Inr (sec', tr)"
    and sc: "set_scripts (poetry proj) sec' = Inr ps"
    unfolding build_project_def by (auto simp: and_then_Inr)
  have tr0: "map_of ?tr0 ''dev-dependencies'' = None"
    by simp
  note rp = describe_project_requires_python [OF d]
  note cdr = convert_dependencies_Inr [OF cd tr0]
  note keep = set_scripts_other [OF sc]
  show "map_of ps ''dependencies'' =
     Some (Array (concat (map (\<lambda>d. [Whitespace (CHR 0x0A # ''    ''), Item (String (to_str d))])
                   (filter (\<lambda>d. \<not> is_python_dep d \<and> \<not> is_dev d) (dependencies proj)))
                  @ [Whitespace [CHR 0x0A]]))"
    using cdr(1) keep [of "''dependencies''"] by simp
  show "map_of ps ''requires-python'' =
     (if filter is_python_dep (dependencies proj) = [] then None
      else Some (String (fmt (version (last (filter is_python_dep (dependencies proj)))))))"
    using cdr(2) rp keep [of "''requires-python''"] by simp
  show "map_of tr ''dev-dependencies'' =
     (if filter (\<lambda>d. \<not> is_python_dep d \<and> is_dev d) (dependencies proj) = [] then None
      else Some (Array (concat (map (\<lambda>d. [Whitespace (CHR 0x0A # ''    ''), Item (String (to_str d))])
                   (filter (\<lambda>d. \<not> is_python_dep d \<and> is_dev d) (dependencies proj)))
                  @ [Whitespace [CHR 0x0A]])))"
    using cdr(3) by simp
  show "map_of tr ''managed'' = Some (Boolean True)"
    using cdr(5) [of "''managed''"] by simp
  show "map_of tr ''virtual'' = Some (Boolean v)"
    using cdr(5) [of "''virtual''"] by simp
qed

lemma values_of_append: "values_of (xs @ ys) = values_of xs @ values_of ys"
  by (induction xs rule: values_of.induct) simp_all

lemma values_of_lines:
  "values_of (concat (map (\<lambda>d. [Whitespace (w d), Item (f d)]) ds)) = map f ds"
  by (induction ds) simp_all

section \<open>The conversion of the sample\<close>

lemma sample_build_project:
  "build_project sample_fmt sample_project v =
     Inr (sample_project_sec, [], sample_tool_rye_sec v)"
  by (simp add: build_project_def describe_project_def sample_project_def sample_poetry_def
      sample_dependencies_def sample_fmt_def and_then_def getitem_def iterate_def
      set_people_def read_name_email_def rpartition_def slice_def slice_index_def
      copy_if_set_def convert_dependencies_def dependencies_loop.simps add_line_at_def
      add_line_def setdefault_def set_scripts_def convert_scripts_def items_def
      sample_project_sec_def sample_tool_rye_sec_def)

lemma sample_convert_document:
  "convert_document sample_fmt sample_project sample_pyproject True False = Inr sample_result"
  unfolding convert_document_def sample_build_project
  by (simp add: and_then_def build_result_def
      add_def copy_section_def sample_pyproject_def getitem_def items_def pop_def
      rewrite_build_system_def subscript_def iterate_def py_in_def add_hatch_def
      packages_of_def sample_project_def sample_result_def)

lemma sample_convert_document_virtual:
  "convert_document sample_fmt sample_project sample_pyproject True True
     = Inr sample_result_virtual"
  unfolding convert_document_def sample_build_project
  by (simp add: and_then_def build_result_def
      add_def copy_section_def sample_pyproject_def getitem_def items_def pop_def
      sample_result_virtual_def)

lemma sample_hypotheses:
  "map_of sample_pyproject ''tool'' \<noteq> None"
  "length (filter is_python_dep (dependencies sample_project)) \<le> 1"
  by (simp_all add: sample_pyproject_def sample_project_def sample_dependencies_def)

section \<open>Where the dependencies go\<close>

lemma mset_three_filters:
  "mset (filter p xs) + mset (filter (\<lambda>x. \<not> p x \<and> q x) xs)
     + mset (filter (\<lambda>x. \<not> p x \<and> \<not> q x) xs) = mset xs"
  by (induction xs) auto

text \<open>
  C1. The claim fails for a project with more than one interpreter constraint: line 79
  assigns \<open>requires-python\<close> once for each of them, so only the last one is in the
  output. The project of the example has the constraints \<open>^3.8\<close> and \<open>^3.9\<close> and nothing
  else; the run returns, \<open>requires-python\<close> holds the second constraint, and the first one
  is in none of the three places.
\<close>

theorem convert_partitions_dependencies_counterexample:
  "dependencies sample_project_two_python =
     [\<lparr>is_python_dep = True, is_basic = True, version = ''^3.8'', is_dev = False,
       to_str = ''python^3.8''\<rparr>,
      \<lparr>is_python_dep = True, is_basic = True, version = ''^3.9'', is_dev = True,
       to_str = ''python^3.9''\<rparr>] \<and>
   convert_document echo_fmt sample_project_two_python sample_pyproject True True
     = Inr sample_result_two_python \<and>
   map_of sample_result_two_python ''project'' = Some (Table sample_project_sec_two_python) \<and>
   map_of sample_project_sec_two_python ''requires-python'' = Some (String (echo_fmt ''^3.9'')) \<and>
   map_of sample_project_sec_two_python ''dependencies'' = Some (Array [Whitespace [CHR 0x0A]]) \<and>
   map_of sample_result_two_python ''tool'' =
     Some (Table [(''rye'', Table [(''managed'', Boolean True), (''virtual'', Boolean True)]),
                  (''black'', Table [(''line-length'', Integer 88)])])"
proof -
  have bp: "build_project echo_fmt sample_project_two_python True =
     Inr (sample_project_sec_two_python, [],
          [(''managed'', Boolean True), (''virtual'', Boolean True)])"
    by (simp add: build_project_def describe_project_def sample_project_def sample_poetry_def
      sample_project_two_python_def echo_fmt_def and_then_def getitem_def iterate_def
      set_people_def read_name_email_def rpartition_def slice_def slice_index_def
      copy_if_set_def convert_dependencies_def dependencies_loop.simps add_line_at_def
      add_line_def set_scripts_def convert_scripts_def items_def
      sample_project_sec_two_python_def)
  have run: "convert_document echo_fmt sample_project_two_python sample_pyproject True True
     = Inr sample_result_two_python"
    unfolding convert_document_def bp
    by (simp add: and_then_def build_result_def add_def copy_section_def sample_pyproject_def
        getitem_def items_def pop_def sample_result_two_python_def)
  show ?thesis
    unfolding run
    by (simp add: sample_project_two_python_def sample_result_two_python_def
        sample_project_sec_two_python_def echo_fmt_def)
qed

text \<open>
  C1, amended. For a project whose document has a \<open>tool\<close> section, as the document of
  every Poetry project has, the output of a run that returns holds every dependency
  that is not an interpreter constraint exactly once, and the last interpreter
  constraint. With \<open>py\<close> the interpreter constraints, \<open>dev\<close> the other records with the
  development flag and \<open>run\<close> the remaining records, the three lists split the input as
  multisets; \<open>requires-python\<close> holds the formatted constraint of the last record of
  \<open>py\<close>, which is all of \<open>py\<close> when the project has at most one interpreter constraint;
  the items of \<open>tool.rye.dev-dependencies\<close> are the records of \<open>dev\<close> and the items of
  \<open>project.dependencies\<close> are the records of \<open>run\<close>, each in the order of the input.
\<close>

theorem convert_partitions_dependencies:
  assumes "convert_document fmt proj pyproject ensure_src virtual_project = Inr result"
    and "map_of pyproject ''tool'' \<noteq> None"
  shows "\<exists>project_sec tool_table tool_rye_sec py dev run dependencies_array.
    py = filter is_python_dep (dependencies proj) \<and>
    dev = filter (\<lambda>d. \<not> is_python_dep d \<and> is_dev d) (dependencies proj) \<and>
    run = filter (\<lambda>d. \<not> is_python_dep d \<and> \<not> is_dev d) (dependencies proj) \<and>
    mset py + mset dev + mset run = mset (dependencies proj) \<and>
    map_of result ''project'' = Some (Table project_sec) \<and>
    map_of result ''tool'' = Some (Table tool_table) \<and>
    map_of tool_table ''rye'' = Some (Table tool_rye_sec) \<and>
    (case map_of project_sec ''requires-python'' of None \<Rightarrow> [] | Some x \<Rightarrow> [x])
      = map (\<lambda>d. String (fmt (version d))) (if py = [] then [] else [last py]) \<and>
    (length py \<le> 1 \<longrightarrow>
       (case map_of project_sec ''requires-python'' of None \<Rightarrow> [] | Some x \<Rightarrow> [x])
         = map (\<lambda>d. String (fmt (version d))) py) \<and>
    (case map_of tool_rye_sec ''dev-dependencies'' of
       Some (Array es) \<Rightarrow> values_of es | _ \<Rightarrow> [])
      = map (\<lambda>d. String (to_str d)) dev \<and>
    map_of project_sec ''dependencies'' = Some (Array dependencies_array) \<and>
    values_of dependencies_array = map (\<lambda>d. String (to_str d)) run"
proof -
  from convert_document_Inr [OF assms(1)] obtain ps us tr where
    bp: "build_project fmt proj virtual_project = Inr (ps, us, tr)"
    and br: "build_result proj pyproject ensure_src virtual_project (ps, us, tr) = Inr result"
    by blast
  from build_result_tool [OF br assms(2)] obtain tt where
    tool: "map_of result ''tool'' = Some (Table tt)" "map_of tt ''rye'' = Some (Table tr)"
    by blast
  note project = build_result_project [OF br]
  note secs = build_project_Inr [OF bp]
  let ?py = "filter is_python_dep (dependencies proj)"
  let ?dev = "filter (\<lambda>d. \<not> is_python_dep d \<and> is_dev d) (dependencies proj)"
  let ?run = "filter (\<lambda>d. \<not> is_python_dep d \<and> \<not> is_dev d) (dependencies proj)"
  have rp:
    "(case map_of ps ''requires-python'' of None \<Rightarrow> [] | Some x \<Rightarrow> [x])
      = map (\<lambda>d. String (fmt (version d))) (if ?py = [] then [] else [last ?py])"
  proof (cases "?py = []")
    case True
    with secs(2) show ?thesis by simp
  next
    case False
    with secs(2) show ?thesis by simp
  qed
  have rp1: "length ?py \<le> 1 \<longrightarrow>
    (case map_of ps ''requires-python'' of None \<Rightarrow> [] | Some x \<Rightarrow> [x])
      = map (\<lambda>d. String (fmt (version d))) ?py"
  proof
    assume "length ?py \<le> 1"
    then have "(if ?py = [] then [] else [last ?py]) = ?py"
      by (cases ?py) (auto simp: Suc_le_eq)
    with rp show "(case map_of ps ''requires-python'' of None \<Rightarrow> [] | Some x \<Rightarrow> [x])
      = map (\<lambda>d. String (fmt (version d))) ?py"
      by (simp only:)
  qed
  from secs(3) have dv:
    "(case map_of tr ''dev-dependencies'' of Some (Array es) \<Rightarrow> values_of es | _ \<Rightarrow> [])
      = map (\<lambda>d. String (to_str d)) ?dev"
    by (simp add: values_of_append values_of_lines)
  have rn: "values_of (concat (map (\<lambda>d. [Whitespace (CHR 0x0A # ''    ''), Item (String (to_str d))])
                   ?run) @ [Whitespace [CHR 0x0A]]) = map (\<lambda>d. String (to_str d)) ?run"
    by (simp add: values_of_append values_of_lines)
  note split = mset_three_filters [of is_python_dep "dependencies proj" is_dev]
  show ?thesis
    by (intro exI conjI, rule refl, rule refl, rule refl, rule split, rule project,
        rule tool(1), rule tool(2), rule rp, rule rp1, rule dv, rule secs(1), rule rn)
qed

theorem convert_partitions_dependencies_witness:
  "convert_document sample_fmt sample_project sample_pyproject True False = Inr sample_result \<and>
   map_of sample_pyproject ''tool'' \<noteq> None \<and>
   length (filter is_python_dep (dependencies sample_project)) \<le> 1 \<and>
   (\<exists>project_sec tool_table tool_rye_sec dependencies_array.
      map_of sample_result ''project'' = Some (Table project_sec) \<and>
      map_of sample_result ''tool'' = Some (Table tool_table) \<and>
      map_of tool_table ''rye'' = Some (Table tool_rye_sec) \<and>
      (case map_of project_sec ''requires-python'' of None \<Rightarrow> [] | Some x \<Rightarrow> [x])
        = [String ''>=3.8,<4.0''] \<and>
      (case map_of tool_rye_sec ''dev-dependencies'' of
         Some (Array es) \<Rightarrow> values_of es | _ \<Rightarrow> [])
        = [String ''pytest>=7.0,<8.0''] \<and>
      map_of project_sec ''dependencies'' = Some (Array dependencies_array) \<and>
      values_of dependencies_array = [String ''requests>=2.0,<3.0''])"
proof -
  have py: "filter is_python_dep (dependencies sample_project) = [sample_dependencies ! 0]"
    and dev: "filter (\<lambda>d. \<not> is_python_dep d \<and> is_dev d) (dependencies sample_project)
              = [sample_dependencies ! 2]"
    and run: "filter (\<lambda>d. \<not> is_python_dep d \<and> \<not> is_dev d) (dependencies sample_project)
              = [sample_dependencies ! 1]"
    by (simp_all add: sample_project_def sample_dependencies_def)
  have vals: "sample_fmt (version (sample_dependencies ! 0)) = ''>=3.8,<4.0''"
    "to_str (sample_dependencies ! 2) = ''pytest>=7.0,<8.0''"
    "to_str (sample_dependencies ! 1) = ''requests>=2.0,<3.0''"
    by (simp_all add: sample_dependencies_def sample_fmt_def)
  from convert_partitions_dependencies [OF sample_convert_document sample_hypotheses(1)]
  obtain project_sec tool_table tool_rye_sec dependencies_array where
    a: "map_of sample_result ''project'' = Some (Table project_sec)"
    and b: "map_of sample_result ''tool'' = Some (Table tool_table)"
    and c: "map_of tool_table ''rye'' = Some (Table tool_rye_sec)"
    and d: "(case map_of project_sec ''requires-python'' of None \<Rightarrow> [] | Some x \<Rightarrow> [x])
      = map (\<lambda>d. String (sample_fmt (version d)))
          (if [sample_dependencies ! 0] = [] then [] else [last [sample_dependencies ! 0]])"
    and e: "(case map_of tool_rye_sec ''dev-dependencies'' of
         Some (Array es) \<Rightarrow> values_of es | _ \<Rightarrow> [])
      = map (\<lambda>d. String (to_str d)) [sample_dependencies ! 2]"
    and f: "map_of project_sec ''dependencies'' = Some (Array dependencies_array)"
    and g: "values_of dependencies_array = map (\<lambda>d. String (to_str d)) [sample_dependencies ! 1]"
    unfolding py dev run by blast
  from d vals(1) have d':
    "(case map_of project_sec ''requires-python'' of None \<Rightarrow> [] | Some x \<Rightarrow> [x])
        = [String ''>=3.8,<4.0'']"
    by simp
  from e vals(2) have e': "(case map_of tool_rye_sec ''dev-dependencies'' of
         Some (Array es) \<Rightarrow> values_of es | _ \<Rightarrow> []) = [String ''pytest>=7.0,<8.0'']"
    by simp
  from g vals(3) have g': "values_of dependencies_array = [String ''requests>=2.0,<3.0'']"
    by simp
  from a b c d' e' f g' have "\<exists>project_sec tool_table tool_rye_sec dependencies_array.
      map_of sample_result ''project'' = Some (Table project_sec) \<and>
      map_of sample_result ''tool'' = Some (Table tool_table) \<and>
      map_of tool_table ''rye'' = Some (Table tool_rye_sec) \<and>
      (case map_of project_sec ''requires-python'' of None \<Rightarrow> [] | Some x \<Rightarrow> [x])
        = [String ''>=3.8,<4.0''] \<and>
      (case map_of tool_rye_sec ''dev-dependencies'' of
         Some (Array es) \<Rightarrow> values_of es | _ \<Rightarrow> [])
        = [String ''pytest>=7.0,<8.0''] \<and>
      map_of project_sec ''dependencies'' = Some (Array dependencies_array) \<and>
      values_of dependencies_array = [String ''requests>=2.0,<3.0'']"
    by blast
  with sample_convert_document sample_hypotheses show ?thesis
    by (simp only: simp_thms)
qed

text \<open>
  C10. For a project whose document has a \<open>tool\<close> section, the project section of
  the output of a run that returns always has a \<open>dependencies\<close> array, which ends
  with the blank line and holds nothing else when the project has no runtime dependency;
  the section \<open>tool.rye\<close> has a \<open>dev-dependencies\<close> key exactly when some dependency
  other than the interpreter constraint is a development dependency.
\<close>

theorem dependencies_key_always:
  assumes "convert_document fmt proj pyproject ensure_src virtual_project = Inr result"
    and "map_of pyproject ''tool'' \<noteq> None"
  shows "\<exists>project_sec tool_table tool_rye_sec lines.
    map_of result ''project'' = Some (Table project_sec) \<and>
    map_of project_sec ''dependencies'' = Some (Array (lines @ [Whitespace [CHR 0x0A]])) \<and>
    ((\<forall>d \<in> set (dependencies proj). is_python_dep d \<or> is_dev d) \<longrightarrow> lines = []) \<and>
    map_of result ''tool'' = Some (Table tool_table) \<and>
    map_of tool_table ''rye'' = Some (Table tool_rye_sec) \<and>
    (map_of tool_rye_sec ''dev-dependencies'' \<noteq> None \<longleftrightarrow>
       (\<exists>d \<in> set (dependencies proj). is_dev d \<and> \<not> is_python_dep d))"
proof -
  from convert_document_Inr [OF assms(1)] obtain ps us tr where
    bp: "build_project fmt proj virtual_project = Inr (ps, us, tr)"
    and br: "build_result proj pyproject ensure_src virtual_project (ps, us, tr) = Inr result"
    by blast
  from build_result_tool [OF br assms(2)] obtain tt where
    tool: "map_of result ''tool'' = Some (Table tt)" "map_of tt ''rye'' = Some (Table tr)"
    by blast
  note project = build_result_project [OF br]
  note secs = build_project_Inr [OF bp]
  let ?run = "filter (\<lambda>d. \<not> is_python_dep d \<and> \<not> is_dev d) (dependencies proj)"
  let ?lines = "concat (map (\<lambda>d. [Whitespace (CHR 0x0A # ''    ''), Item (String (to_str d))]) ?run)"
  have none: "(\<forall>d \<in> set (dependencies proj). is_python_dep d \<or> is_dev d) \<longrightarrow> ?lines = []"
    by (auto simp: filter_empty_conv)
  have dev: "map_of tr ''dev-dependencies'' \<noteq> None \<longleftrightarrow>
       (\<exists>d \<in> set (dependencies proj). is_dev d \<and> \<not> is_python_dep d)"
    unfolding secs(3) by (auto simp: filter_empty_conv)
  from project secs(1) none tool dev show ?thesis
    by blast
qed

theorem dependencies_key_always_witness:
  "convert_document sample_fmt sample_project_no_dependencies sample_pyproject True True
     = Inr sample_result_no_dependencies \<and>
   map_of sample_pyproject ''tool'' \<noteq> None \<and>
   dependencies sample_project_no_dependencies = [] \<and>
   (\<exists>project_sec tool_table tool_rye_sec.
      map_of sample_result_no_dependencies ''project'' = Some (Table project_sec) \<and>
      map_of project_sec ''dependencies'' = Some (Array [Whitespace [CHR 0x0A]]) \<and>
      map_of sample_result_no_dependencies ''tool'' = Some (Table tool_table) \<and>
      map_of tool_table ''rye'' = Some (Table tool_rye_sec) \<and>
      map_of tool_rye_sec ''dev-dependencies'' = None)"
proof -
  have bp: "build_project sample_fmt sample_project_no_dependencies True =
     Inr ([(''name'', String ''demo-app''), (''version'', String ''0.1.0''),
         (''description'', String ''A demo''),
         (''authors'',
          Array [Item (Table [(''name'', String ''Jane Doe''),
                              (''email'', String ''jane@example.com'')])]),
         (''dependencies'', Array [Whitespace [CHR 0x0A]]),
         (''scripts'', Table [(''cli'', String ''pkg.mod:main'')])], [],
         [(''managed'', Boolean True), (''virtual'', Boolean True)])"
    by (simp add: build_project_def describe_project_def sample_project_def sample_poetry_def
      sample_project_no_dependencies_def and_then_def getitem_def iterate_def
      set_people_def read_name_email_def rpartition_def slice_def slice_index_def
      copy_if_set_def convert_dependencies_def add_line_at_def
      add_line_def set_scripts_def convert_scripts_def items_def)
  have run: "convert_document sample_fmt sample_project_no_dependencies sample_pyproject True True
     = Inr sample_result_no_dependencies"
    unfolding convert_document_def bp
    by (simp add: and_then_def build_result_def add_def copy_section_def sample_pyproject_def
        getitem_def items_def pop_def sample_result_no_dependencies_def)
  have deps: "dependencies sample_project_no_dependencies = []"
    by (simp add: sample_project_no_dependencies_def)
  from dependencies_key_always [OF run sample_hypotheses(1)]
  obtain project_sec tool_table tool_rye_sec lines where
    "map_of sample_result_no_dependencies ''project'' = Some (Table project_sec)"
    "map_of project_sec ''dependencies'' = Some (Array (lines @ [Whitespace [CHR 0x0A]]))"
    "lines = []"
    "map_of sample_result_no_dependencies ''tool'' = Some (Table tool_table)"
    "map_of tool_table ''rye'' = Some (Table tool_rye_sec)"
    "map_of tool_rye_sec ''dev-dependencies'' = None"
    unfolding deps by auto
  then have "\<exists>project_sec tool_table tool_rye_sec.
      map_of sample_result_no_dependencies ''project'' = Some (Table project_sec) \<and>
      map_of project_sec ''dependencies'' = Some (Array [Whitespace [CHR 0x0A]]) \<and>
      map_of sample_result_no_dependencies ''tool'' = Some (Table tool_table) \<and>
      map_of tool_table ''rye'' = Some (Table tool_rye_sec) \<and>
      map_of tool_rye_sec ''dev-dependencies'' = None"
    by auto
  with run sample_hypotheses(1) deps show ?thesis
    by (simp only: simp_thms)
qed

section \<open>Which sections are copied\<close>

text \<open>
  C3. With \<open>virtual_project\<close> the output has no \<open>build-system\<close> section, whatever the
  input holds. Without it, a \<open>build-system\<close> table of the input whose \<open>requires\<close> is an
  array of strings comes out with the strings that contain \<open>poetry-core\<close> removed from
  \<open>requires\<close>, \<open>hatchling\<close> appended to it, and \<open>build-backend\<close> set to
  \<open>hatchling.build\<close>.
\<close>

theorem build_system_by_virtual_flag:
  assumes "convert_document fmt proj pyproject ensure_src virtual_project = Inr result"
  shows "(virtual_project \<longrightarrow> map_of result ''build-system'' = None) \<and>
    (\<not> virtual_project \<and> map_of pyproject ''build-system'' = Some (Table t) \<and>
     map_of t ''requires'' = Some (Array es) \<and> values_of es = map String requires \<longrightarrow>
       map_of result ''build-system'' =
         Some (Table (AList.update ''build-backend'' (String ''hatchling.build'')
           (AList.update ''requires''
              (Array (map Item
                 (map String (filter (\<lambda>s. \<not> contains s ''poetry-core'') requires)
                  @ [String ''hatchling''])))
              t))))"
proof (intro conjI impI)
  from convert_document_Inr [OF assms] obtain ps us tr where
    br: "build_result proj pyproject ensure_src virtual_project (ps, us, tr) = Inr result"
    by blast
  {
    assume virtual_project
    with br show "map_of result ''build-system'' = None"
      using build_result_build_system_virtual by simp
  next
    assume a: "\<not> virtual_project \<and> map_of pyproject ''build-system'' = Some (Table t) \<and>
     map_of t ''requires'' = Some (Array es) \<and> values_of es = map String requires"
    with br have "build_result proj pyproject ensure_src False (ps, us, tr) = Inr result"
      by simp
    from build_result_build_system [OF this] a obtain b' where
      "rewrite_build_system (Table t) = Inr b'" "map_of result ''build-system'' = Some b'"
      by blast
    with a rewrite_build_system_strings [of t es requires]
    show "map_of result ''build-system'' =
         Some (Table (AList.update ''build-backend'' (String ''hatchling.build'')
           (AList.update ''requires''
              (Array (map Item
                 (map String (filter (\<lambda>s. \<not> contains s ''poetry-core'') requires)
                  @ [String ''hatchling''])))
              t)))"
      by simp
  }
qed

theorem build_system_by_virtual_flag_witness:
  "convert_document sample_fmt sample_project sample_pyproject True True
     = Inr sample_result_virtual \<and>
   map_of sample_result_virtual ''build-system'' = None \<and>
   convert_document sample_fmt sample_project sample_pyproject True False = Inr sample_result \<and>
   map_of sample_pyproject ''build-system'' =
     Some (Table [(''requires'', Array [Item (String ''poetry-core>=1.0'')]),
                  (''build-backend'', String ''poetry.core.masonry.api'')]) \<and>
   map_of sample_result ''build-system'' =
     Some (Table [(''requires'', Array [Item (String ''hatchling'')]),
                  (''build-backend'', String ''hatchling.build'')])"
proof -
  let ?t = "[(''requires'', Array [Item (String ''poetry-core>=1.0'')]),
             (''build-backend'', String ''poetry.core.masonry.api'')]"
  have bs: "map_of sample_pyproject ''build-system'' = Some (Table ?t)"
    by (simp add: sample_pyproject_def)
  have rq: "map_of ?t ''requires'' = Some (Array [Item (String ''poetry-core>=1.0'')])"
    "values_of [Item (String ''poetry-core>=1.0'')] = map String [''poetry-core>=1.0'']"
    by simp_all
  from build_system_by_virtual_flag [OF sample_convert_document_virtual]
  have v: "map_of sample_result_virtual ''build-system'' = None"
    by simp
  from build_system_by_virtual_flag [OF sample_convert_document,
      of ?t "[Item (String ''poetry-core>=1.0'')]" "[''poetry-core>=1.0'']"] bs rq
  have "map_of sample_result ''build-system'' =
     Some (Table [(''requires'', Array [Item (String ''hatchling'')]),
                  (''build-backend'', String ''hatchling.build'')])"
    by simp
  with v bs sample_convert_document sample_convert_document_virtual show ?thesis
    by simp
qed

lemma build_result_build_system_absent:
  assumes "build_result proj py ensure_src False (ps, us, tr) = Inr result"
    and "map_of py ''build-system'' = None"
  shows "map_of result ''build-system'' = None"
proof -
  from build_result_Inr [OF assms(1)] obtain res0 res' tt' where
    r: "map_of res0 ''build-system'' = None"
    and l: "copy_sections False py (map fst py) res0 [(''rye'', Table tr)] = Inr (res', tt')"
    and h: "add_hatch proj ensure_src res' = Inr result"
    by auto
  from assms(2) have "''build-system'' \<notin> set (map fst py)"
    by (simp add: map_of_eq_None_iff)
  with copy_sections_build_system [OF l] r have "map_of res' ''build-system'' = None"
    by simp
  with h show ?thesis
    by (auto simp: update_conv' dest!: add_hatch_Inr)
qed

text \<open>
  C2. The claim fails in four places. The \<open>build-system\<close> section is a top-level
  section of the input and is not copied: a virtual project loses it, a packaged project
  gets a rewritten one. A \<open>project\<close> section of the input is not copied either, the new
  one takes its place. For a packaged project the \<open>hatch\<close> subsection of the input, a
  sibling of \<open>poetry\<close>, is replaced by the wheel configuration. And a run on a document
  whose \<open>tool\<close> section has a \<open>rye\<close> subsection raises, so nothing is inserted then.
\<close>

theorem convert_copies_sections_counterexample:
  "convert_document sample_fmt sample_project sample_pyproject True True
     = Inr sample_result_virtual \<and>
   map_of sample_pyproject ''build-system'' =
     Some (Table [(''requires'', Array [Item (String ''poetry-core>=1.0'')]),
                  (''build-backend'', String ''poetry.core.masonry.api'')]) \<and>
   map_of sample_result_virtual ''build-system'' = None \<and>
   convert_document sample_fmt sample_project sample_pyproject_full True False
     = Inr sample_result_full \<and>
   map_of sample_pyproject_full ''build-system'' =
     Some (Table [(''requires'', Array [Item (String ''poetry-core>=1.0'')]),
                  (''build-backend'', String ''poetry.core.masonry.api'')]) \<and>
   map_of sample_result_full ''build-system'' =
     Some (Table [(''requires'', Array [Item (String ''hatchling'')]),
                  (''build-backend'', String ''hatchling.build'')]) \<and>
   map_of sample_pyproject_full ''project'' = Some (Table [(''name'', String ''old-name'')]) \<and>
   map_of sample_result_full ''project'' = Some (Table sample_project_sec) \<and>
   map_of sample_project_sec ''name'' = Some (String ''demo-app'') \<and>
   map_of sample_pyproject_full ''tool'' = Some (Table sample_tool_full) \<and>
   map_of sample_tool_full ''hatch'' =
     Some (Table [(''version'', Table [(''path'', String ''demo_app/__init__.py'')])]) \<and>
   map_of sample_result_full ''tool'' = Some (Table sample_tool_table_full) \<and>
   map_of sample_tool_table_full ''hatch'' =
     Some (Table [(''metadata'', Table [(''allow-direct-references'', Boolean True)]),
                  (''build'', Table [(''targets'',
                     Table [(''wheel'',
                       Table [(''packages'', Array [Item (String ''src/demo_app'')])])])])]) \<and>
   map_of sample_pyproject_rye ''tool'' =
     Some (Table [(''poetry'', Table sample_poetry),
                  (''rye'', Table [(''managed'', Boolean True)])]) \<and>
   convert_document sample_fmt sample_project sample_pyproject_rye True True
     = Inl (KeyAlreadyPresent ''rye'')"
proof -
  have full: "convert_document sample_fmt sample_project sample_pyproject_full True False
     = Inr sample_result_full"
    unfolding convert_document_def sample_build_project
    by (simp add: and_then_def build_result_def
        add_def copy_section_def sample_pyproject_full_def sample_tool_full_def
        getitem_def items_def pop_def
        rewrite_build_system_def subscript_def iterate_def py_in_def add_hatch_def
        packages_of_def sample_project_def sample_result_full_def sample_tool_table_full_def)
  have rye: "convert_document sample_fmt sample_project sample_pyproject_rye True True
     = Inl (KeyAlreadyPresent ''rye'')"
    unfolding convert_document_def sample_build_project
    by (simp add: and_then_def build_result_def
        add_def copy_section_def sample_pyproject_rye_def getitem_def items_def pop_def)
  show ?thesis
    unfolding full rye sample_convert_document_virtual
    by (simp add: sample_pyproject_def sample_result_virtual_def sample_pyproject_full_def
        sample_result_full_def sample_tool_full_def sample_tool_table_full_def
        sample_pyproject_rye_def sample_project_sec_def hatch_table_def)
qed

text \<open>
  C2, amended. When \<open>convert\<close> succeeds, every top-level section of the input other than
  \<open>project\<close>, \<open>tool\<close> and \<open>build-system\<close> is in the output unchanged. The \<open>project\<close>
  section of the output is the newly built one. The output has no \<open>build-system\<close>
  section for a virtual project; for a packaged project it has one exactly when the input
  has one, and it is the rewritten section. When the input has a \<open>tool\<close> section, the
  \<open>tool\<close> section of the output has no \<open>poetry\<close> subsection, has every sibling
  subsection other than \<open>hatch\<close> unchanged, has the \<open>hatch\<close> subsection of the input for
  a virtual project and the wheel configuration as its \<open>hatch\<close> subsection for a packaged
  project, and has as its \<open>rye\<close> subsection the newly built one, with \<open>managed = true\<close> and
  \<open>virtual\<close> equal to the argument; the input then had no \<open>rye\<close> subsection.
\<close>

theorem convert_copies_sections:
  assumes "convert_document fmt proj pyproject ensure_src virtual_project = Inr result"
  shows "\<exists>project_sec urls_sec tool_rye_sec.
    build_project fmt proj virtual_project = Inr (project_sec, urls_sec, tool_rye_sec) \<and>
    (name \<in> fst ` set pyproject \<and> name \<noteq> ''project'' \<and> name \<noteq> ''tool'' \<and>
       name \<noteq> ''build-system'' \<longrightarrow> map_of result name = map_of pyproject name) \<and>
    map_of result ''project'' = Some (Table project_sec) \<and>
    (virtual_project \<longrightarrow> map_of result ''build-system'' = None) \<and>
    (\<not> virtual_project \<and> map_of pyproject ''build-system'' = None \<longrightarrow>
       map_of result ''build-system'' = None) \<and>
    (\<not> virtual_project \<and> map_of pyproject ''build-system'' = Some build_system \<longrightarrow>
       (\<exists>rewritten. rewrite_build_system build_system = Inr rewritten \<and>
          map_of result ''build-system'' = Some rewritten)) \<and>
    (map_of pyproject ''tool'' \<noteq> None \<longrightarrow>
      (\<exists>tool tool_table.
         map_of pyproject ''tool'' = Some (Table tool) \<and>
         map_of result ''tool'' = Some (Table tool_table) \<and>
         map_of tool_table ''poetry'' = None \<and>
         (\<forall>k. k \<noteq> ''poetry'' \<and> k \<noteq> ''rye'' \<and> k \<noteq> ''hatch'' \<longrightarrow>
            map_of tool_table k = map_of tool k) \<and>
         (virtual_project \<longrightarrow> map_of tool_table ''hatch'' = map_of tool ''hatch'') \<and>
         (\<not> virtual_project \<longrightarrow>
            (\<exists>packages. packages_of proj ensure_src = Inr packages \<and>
               map_of tool_table ''hatch'' = Some (hatch_table packages))) \<and>
         map_of tool ''rye'' = None \<and>
         map_of tool_table ''rye'' = Some (Table tool_rye_sec) \<and>
         map_of tool_rye_sec ''managed'' = Some (Boolean True) \<and>
         map_of tool_rye_sec ''virtual'' = Some (Boolean virtual_project)))"
proof -
  from convert_document_Inr [OF assms] obtain ps us tr where
    bp: "build_project fmt proj virtual_project = Inr (ps, us, tr)"
    and br: "build_result proj pyproject ensure_src virtual_project (ps, us, tr) = Inr result"
    by blast
  have other: "name \<in> fst ` set pyproject \<and> name \<noteq> ''project'' \<and> name \<noteq> ''tool'' \<and>
       name \<noteq> ''build-system'' \<longrightarrow> map_of result name = map_of pyproject name"
    using build_result_other [OF br] by blast
  note project = build_result_project [OF br]
  have dropped: "virtual_project \<longrightarrow> map_of result ''build-system'' = None"
    using br build_result_build_system_virtual by auto
  have absent: "\<not> virtual_project \<and> map_of pyproject ''build-system'' = None \<longrightarrow>
       map_of result ''build-system'' = None"
    using br build_result_build_system_absent by auto
  have rewritten: "\<not> virtual_project \<and> map_of pyproject ''build-system'' = Some build_system \<longrightarrow>
       (\<exists>rewritten. rewrite_build_system build_system = Inr rewritten \<and>
          map_of result ''build-system'' = Some rewritten)"
    using br build_result_build_system by auto
  have tool: "map_of pyproject ''tool'' \<noteq> None \<longrightarrow>
      (\<exists>tool tool_table.
         map_of pyproject ''tool'' = Some (Table tool) \<and>
         map_of result ''tool'' = Some (Table tool_table) \<and>
         map_of tool_table ''poetry'' = None \<and>
         (\<forall>k. k \<noteq> ''poetry'' \<and> k \<noteq> ''rye'' \<and> k \<noteq> ''hatch'' \<longrightarrow>
            map_of tool_table k = map_of tool k) \<and>
         (virtual_project \<longrightarrow> map_of tool_table ''hatch'' = map_of tool ''hatch'') \<and>
         (\<not> virtual_project \<longrightarrow>
            (\<exists>packages. packages_of proj ensure_src = Inr packages \<and>
               map_of tool_table ''hatch'' = Some (hatch_table packages))) \<and>
         map_of tool ''rye'' = None \<and>
         map_of tool_table ''rye'' = Some (Table tr) \<and>
         map_of tr ''managed'' = Some (Boolean True) \<and>
         map_of tr ''virtual'' = Some (Boolean virtual_project))"
  proof
    assume "map_of pyproject ''tool'' \<noteq> None"
    from build_result_tool [OF br this] obtain pt tt where
      t: "map_of pyproject ''tool'' = Some (Table pt)"
      "map_of result ''tool'' = Some (Table tt)"
      "map_of tt ''rye'' = Some (Table tr)"
      "map_of tt ''poetry'' = None"
      "map_of pt ''rye'' = None"
      "\<forall>k. k \<noteq> ''poetry'' \<and> k \<noteq> ''rye'' \<and> k \<noteq> ''hatch'' \<longrightarrow> map_of tt k = map_of pt k"
      and h: "if virtual_project then map_of tt ''hatch'' = map_of pt ''hatch''
            else \<exists>packages. packages_of proj ensure_src = Inr packages \<and>
                   map_of tt ''hatch'' = Some (hatch_table packages)"
      by blast
    from h have h1: "virtual_project \<longrightarrow> map_of tt ''hatch'' = map_of pt ''hatch''"
      and h2: "\<not> virtual_project \<longrightarrow>
            (\<exists>packages. packages_of proj ensure_src = Inr packages \<and>
               map_of tt ''hatch'' = Some (hatch_table packages))"
      by (simp_all split: if_splits)
    note m = build_project_Inr(4,5) [OF bp]
    show "\<exists>tool tool_table.
         map_of pyproject ''tool'' = Some (Table tool) \<and>
         map_of result ''tool'' = Some (Table tool_table) \<and>
         map_of tool_table ''poetry'' = None \<and>
         (\<forall>k. k \<noteq> ''poetry'' \<and> k \<noteq> ''rye'' \<and> k \<noteq> ''hatch'' \<longrightarrow>
            map_of tool_table k = map_of tool k) \<and>
         (virtual_project \<longrightarrow> map_of tool_table ''hatch'' = map_of tool ''hatch'') \<and>
         (\<not> virtual_project \<longrightarrow>
            (\<exists>packages. packages_of proj ensure_src = Inr packages \<and>
               map_of tool_table ''hatch'' = Some (hatch_table packages))) \<and>
         map_of tool ''rye'' = None \<and>
         map_of tool_table ''rye'' = Some (Table tr) \<and>
         map_of tr ''managed'' = Some (Boolean True) \<and>
         map_of tr ''virtual'' = Some (Boolean virtual_project)"
      by (intro exI conjI, rule t(1), rule t(2), rule t(4), rule t(6), rule h1, rule h2,
          rule t(5), rule t(3), rule m(1), rule m(2))
  qed
  show ?thesis
    by (intro exI conjI, rule bp, rule other, rule project, rule dropped, rule absent,
        rule rewritten, rule tool)
qed

theorem convert_copies_sections_witness:
  "convert_document sample_fmt sample_project sample_pyproject True False = Inr sample_result \<and>
   ''custom'' \<in> fst ` set sample_pyproject \<and>
   map_of sample_pyproject ''tool'' \<noteq> None \<and>
   map_of sample_pyproject ''build-system'' =
     Some (Table [(''requires'', Array [Item (String ''poetry-core>=1.0'')]),
                  (''build-backend'', String ''poetry.core.masonry.api'')]) \<and>
   map_of sample_result ''custom'' = map_of sample_pyproject ''custom'' \<and>
   map_of sample_result ''custom'' = Some (Table [(''level'', Integer 3)]) \<and>
   map_of sample_result ''project'' = Some (Table sample_project_sec) \<and>
   map_of sample_result ''build-system'' =
     Some (Table [(''requires'', Array [Item (String ''hatchling'')]),
                  (''build-backend'', String ''hatchling.build'')]) \<and>
   (\<exists>tool tool_table.
      map_of sample_pyproject ''tool'' = Some (Table tool) \<and>
      map_of sample_result ''tool'' = Some (Table tool_table) \<and>
      map_of tool_table ''poetry'' = None \<and>
      map_of tool_table ''black'' = map_of tool ''black'' \<and>
      map_of tool ''black'' = Some (Table [(''line-length'', Integer 88)]) \<and>
      map_of tool_table ''hatch'' = Some (hatch_table [String ''src/demo_app'']) \<and>
      map_of tool ''rye'' = None \<and>
      map_of tool_table ''rye'' = Some (Table (sample_tool_rye_sec False)))"
proof -
  let ?b = "Table [(''requires'', Array [Item (String ''poetry-core>=1.0'')]),
                   (''build-backend'', String ''poetry.core.masonry.api'')]"
  have c: "''custom'' \<in> fst ` set sample_pyproject"
    and t: "map_of sample_pyproject ''tool'' \<noteq> None"
    and v: "map_of sample_pyproject ''custom'' = Some (Table [(''level'', Integer 3)])"
    and bs: "map_of sample_pyproject ''build-system'' = Some ?b"
    by (simp_all add: sample_pyproject_def)
  from convert_copies_sections [OF sample_convert_document, of "''custom''" ?b]
  obtain ps us tr where
    bp: "build_project sample_fmt sample_project False = Inr (ps, us, tr)"
    and o: "''custom'' \<in> fst ` set sample_pyproject \<and> ''custom'' \<noteq> ''project'' \<and>
        ''custom'' \<noteq> ''tool'' \<and> ''custom'' \<noteq> ''build-system'' \<longrightarrow>
        map_of sample_result ''custom'' = map_of sample_pyproject ''custom''"
    and p: "map_of sample_result ''project'' = Some (Table ps)"
    and r: "\<not> False \<and> map_of sample_pyproject ''build-system'' = Some ?b \<longrightarrow>
       (\<exists>rewritten. rewrite_build_system ?b = Inr rewritten \<and>
          map_of sample_result ''build-system'' = Some rewritten)"
    and tl: "map_of sample_pyproject ''tool'' \<noteq> None \<longrightarrow>
      (\<exists>tool tool_table.
         map_of sample_pyproject ''tool'' = Some (Table tool) \<and>
         map_of sample_result ''tool'' = Some (Table tool_table) \<and>
         map_of tool_table ''poetry'' = None \<and>
         (\<forall>k. k \<noteq> ''poetry'' \<and> k \<noteq> ''rye'' \<and> k \<noteq> ''hatch'' \<longrightarrow>
            map_of tool_table k = map_of tool k) \<and>
         (False \<longrightarrow> map_of tool_table ''hatch'' = map_of tool ''hatch'') \<and>
         (\<not> False \<longrightarrow>
            (\<exists>packages. packages_of sample_project True = Inr packages \<and>
               map_of tool_table ''hatch'' = Some (hatch_table packages))) \<and>
         map_of tool ''rye'' = None \<and>
         map_of tool_table ''rye'' = Some (Table tr) \<and>
         map_of tr ''managed'' = Some (Boolean True) \<and>
         map_of tr ''virtual'' = Some (Boolean False))"
    by (elim exE conjE)
  from bp have ps: "ps = sample_project_sec" and tr: "tr = sample_tool_rye_sec False"
    by (simp_all add: sample_build_project)
  from o c have copied: "map_of sample_result ''custom'' = map_of sample_pyproject ''custom''"
    by simp
  from r bs obtain rewritten where
    "rewrite_build_system ?b = Inr rewritten"
    "map_of sample_result ''build-system'' = Some rewritten"
    by blast
  then have built: "map_of sample_result ''build-system'' =
     Some (Table [(''requires'', Array [Item (String ''hatchling'')]),
                  (''build-backend'', String ''hatchling.build'')])"
    by (simp add: rewrite_build_system_def subscript_def getitem_def iterate_def items_def
        and_then_def py_in_def)
  from tl [THEN mp, OF t] obtain tool tool_table where
    a: "map_of sample_pyproject ''tool'' = Some (Table tool)"
    and b: "map_of sample_result ''tool'' = Some (Table tool_table)"
    and po: "map_of tool_table ''poetry'' = None"
    and k: "\<forall>k. k \<noteq> ''poetry'' \<and> k \<noteq> ''rye'' \<and> k \<noteq> ''hatch'' \<longrightarrow>
            map_of tool_table k = map_of tool k"
    and hp: "\<not> False \<longrightarrow>
            (\<exists>packages. packages_of sample_project True = Inr packages \<and>
               map_of tool_table ''hatch'' = Some (hatch_table packages))"
    and nr: "map_of tool ''rye'' = None"
    and rye: "map_of tool_table ''rye'' = Some (Table tr)"
    by (elim exE conjE)
  from hp obtain packages where
    pk: "packages_of sample_project True = Inr packages"
    and h: "map_of tool_table ''hatch'' = Some (hatch_table packages)"
    by (simp only: simp_thms) (elim exE conjE)
  from k [THEN spec, of "''black''"]
  have black: "map_of tool_table ''black'' = map_of tool ''black''"
    by simp
  from a have "tool = [(''poetry'', Table sample_poetry),
                       (''black'', Table [(''line-length'', Integer 88)])]"
    by (simp add: sample_pyproject_def)
  then have bl: "map_of tool ''black'' = Some (Table [(''line-length'', Integer 88)])"
    by simp
  from pk have "packages = [String ''src/demo_app'']"
    by (simp add: packages_of_def sample_project_def)
  with h have hatch: "map_of tool_table ''hatch'' = Some (hatch_table [String ''src/demo_app''])"
    by simp
  from a b po black bl hatch nr rye [unfolded tr] have
    "\<exists>tool tool_table.
      map_of sample_pyproject ''tool'' = Some (Table tool) \<and>
      map_of sample_result ''tool'' = Some (Table tool_table) \<and>
      map_of tool_table ''poetry'' = None \<and>
      map_of tool_table ''black'' = map_of tool ''black'' \<and>
      map_of tool ''black'' = Some (Table [(''line-length'', Integer 88)]) \<and>
      map_of tool_table ''hatch'' = Some (hatch_table [String ''src/demo_app'']) \<and>
      map_of tool ''rye'' = None \<and>
      map_of tool_table ''rye'' = Some (Table (sample_tool_rye_sec False))"
    by (intro exI conjI)
  with copied v c t bs built p [unfolded ps] sample_convert_document show ?thesis
    by (simp only: simp_thms)
qed

section \<open>Paths and the steps on the disk\<close>











lemma write_text_Inr:
  assumes "write_text p content w = (Inr (), w')"
  shows "w' = w\<lparr>fs := (fs w)(p \<mapsto> File content), events := events w @ [Write p content]\<rparr>"
  using assms
  by (auto simp: write_text_def split: if_splits option.splits node.splits)

lemma write_text_Inl:
  "write_text p content w = (Inl e, w') \<Longrightarrow> w' = w"
  by (auto simp: write_text_def split: if_splits option.splits node.splits)




section \<open>The backup comes first\<close>

lemma grows_bind:
  assumes "grows m" and "\<And>x. grows (f x)"
  shows "grows (io_bind m f)"
  unfolding grows_def
proof (intro allI impI)
  fix w r w'
  assume b: "io_bind m f w = (r, w')"
  obtain r1 w1 where m: "m w = (r1, w1)"
    by (cases "m w")
  with assms(1) have p1: "prefix (events w) (events w1)"
    by (simp add: grows_def)
  show "prefix (events w) (events w')"
  proof (cases r1)
    case (Inl e)
    with b m have "w' = w1" by (simp add: io_bind_def)
    with p1 show ?thesis by simp
  next
    case (Inr x)
    with b m have "f x w1 = (r, w')" by (simp add: io_bind_def)
    with assms(2) have "prefix (events w1) (events w')"
      unfolding grows_def by blast
    with p1 show ?thesis
      using prefix_order.trans by blast
  qed
qed

lemma grows_write_text: "grows (write_text p t)"
  by (auto simp: grows_def write_text_def split: if_splits option.splits node.splits)

lemma grows_read_text: "grows (read_text p)"
  by (auto simp: grows_def read_text_def split: option.splits node.splits)

lemma grows_sweep_lines: "grows (sweep_lines num ls)"
  by (simp add: grows_def sweep_lines_events)

lemma grows_validation_sweep: "grows (validation_sweep p)"
  unfolding validation_sweep_def
  by (intro grows_bind grows_read_text grows_sweep_lines)

lemma grows_remove: "grows (remove p)"
  by (auto simp: grows_def remove_def split: option.splits node.splits)

lemma grows_remove_lock: "grows (remove_lock p)"
  using grows_remove [of "p @ [''poetry.lock'']"]
  by (auto simp: grows_def remove_lock_def)

lemma grows_mkdir: "grows (mkdir p)"
  by (auto simp: grows_def mkdir_def split: if_splits)

lemma grows_move: "grows (move src dst)"
  by (auto simp: grows_def move_def Let_def split: if_splits)

lemma grows_move_to_src: "grows (move_to_src proj project_path ensure_src)"
proof -
  have "grows (io_bind (mkdir (project_path @ [''src'']))
          (\<lambda>_. move (module_path proj) (project_path @ [''src'', module_name proj])))"
    by (intro grows_bind grows_mkdir grows_move)
  then show ?thesis
    by (auto simp: grows_def move_to_src_def)
qed

text \<open>What follows the report of the backup: the write and the steps behind it.\<close>

lemma after_backup_events:
  assumes "io_bind (write_text p t) (\<lambda>_.
           io_bind (validation_sweep p) (\<lambda>_.
           io_bind (remove_lock project_path) (\<lambda>_.
           move_to_src proj project_path ensure_src))) w = (r, w')"
  shows "prefix (events w) (events w')"
    and "r = Inr () \<Longrightarrow> prefix (events w @ [Write p t]) (events w')"
proof -
  let ?rest = "io_bind (validation_sweep p) (\<lambda>_.
           io_bind (remove_lock project_path) (\<lambda>_.
           move_to_src proj project_path ensure_src))"
  have g: "grows ?rest"
    by (intro grows_bind grows_validation_sweep grows_remove_lock grows_move_to_src)
  have "grows (io_bind (write_text p t) (\<lambda>_. ?rest))"
    by (intro grows_bind grows_write_text g)
  with assms show "prefix (events w) (events w')"
    unfolding grows_def by blast
  assume ok: "r = Inr ()"
  with assms obtain w1 where w: "write_text p t w = (Inr (), w1)" and r: "?rest w1 = (r, w')"
    by (auto simp: io_bind_def split: prod.splits sum.splits)
  from w have "events w1 = events w @ [Write p t]"
    by (auto simp: write_text_def split: if_splits option.splits node.splits)
  with g r show "prefix (events w @ [Write p t]) (events w')"
    unfolding grows_def by metis
qed

lemma copytree_Inr:
  assumes "copytree src dst w = (Inr (), w1)"
  shows "events w1 = events w @ [CopyTree src dst]"
    and "fs w (src @ q) = Some n \<Longrightarrow> fs w1 (dst @ q) = Some n"
    and "fs w (src @ q) = None \<Longrightarrow> fs w1 (dst @ q) = fs w (dst @ q)"
proof -
  from assms have w1: "w1 = w\<lparr>fs := copied src dst (fs w), events := events w @ [CopyTree src dst]\<rparr>"
    by (auto simp: copytree_def split: option.splits node.splits if_splits)
  then show "events w1 = events w @ [CopyTree src dst]"
    by simp
  show "fs w1 (dst @ q) = Some n" if "fs w (src @ q) = Some n"
    using that by (simp add: w1 copied_def)
  show "fs w1 (dst @ q) = fs w (dst @ q)" if "fs w (src @ q) = None"
    using that by (simp add: w1 copied_def)
qed

lemma copytree_Inl:
  "copytree src dst w = (Inl e, w1) \<Longrightarrow> w1 = w"
  by (auto simp: copytree_def split: option.splits node.splits if_splits)

lemma write_project_cases:
  assumes "write_project ext proj project_path ensure_src result w = (r, w')"
  shows "(w' = w \<and> r \<noteq> Inr ()) \<or>
     (\<exists>w1 tail.
        copytree project_path (get_next_backup_path ext (fs w) project_path) w = (Inr (), w1) \<and>
        events w' = events w @
          CopyTree project_path (get_next_backup_path ext (fs w) project_path) #
          Print (''created backup: '' @ path_str (get_next_backup_path ext (fs w) project_path)) #
          tail \<and>
        (r = Inr () \<longrightarrow>
           (\<exists>tail'. tail = Write (project_path @ [''pyproject.toml'']) (dumps ext result) # tail')))"
proof -
  let ?B = "get_next_backup_path ext (fs w) project_path"
  let ?p = "project_path @ [''pyproject.toml'']"
  let ?T = "io_bind (write_text ?p (dumps ext result)) (\<lambda>_.
           io_bind (validation_sweep ?p) (\<lambda>_.
           io_bind (remove_lock project_path) (\<lambda>_.
           move_to_src proj project_path ensure_src)))"
  obtain r1 w1 where c: "copytree project_path ?B w = (r1, w1)"
    by (cases "copytree project_path ?B w")
  show ?thesis
  proof (cases r1)
    case (Inl e)
    with c have "w1 = w"
      using copytree_Inl by blast
    with assms c Inl have "w' = w \<and> r \<noteq> Inr ()"
      by (auto simp: write_project_def Let_def io_bind_def)
    then show ?thesis by blast
  next
    case (Inr u)
    with c have c': "copytree project_path ?B w = (Inr (), w1)"
      by simp
    let ?w2 = "w1\<lparr>events := events w1 @ [Print (''created backup: '' @ path_str ?B)]\<rparr>"
    from assms c' have t: "?T ?w2 = (r, w')"
      by (simp add: write_project_def Let_def io_bind_def print_def)
    have e2: "events ?w2 = events w @ [CopyTree project_path ?B,
                 Print (''created backup: '' @ path_str ?B)]"
      using copytree_Inr(1) [OF c'] by simp
    from after_backup_events(1) [OF t] obtain tail where
      tail: "events w' = events ?w2 @ tail"
      by (auto simp: prefix_def)
    have "\<exists>tail'. tail = Write ?p (dumps ext result) # tail'" if "r = Inr ()"
    proof -
      from after_backup_events(2) [OF t that] obtain tail' where
        "events w' = (events ?w2 @ [Write ?p (dumps ext result)]) @ tail'"
        unfolding prefix_def by blast
      with tail have "tail = Write ?p (dumps ext result) # tail'"
        by simp
      then show ?thesis by blast
    qed
    with c' tail e2 show ?thesis
      by auto
  qed
qed

text \<open>
  C7. A run of \<open>convert\<close> either stops with an exception before anything has happened,
  or its first effect is the copy of the project directory, taken from the world the run
  started in, to the backup path: every entry below the project directory is then at the
  same place below the backup path, links as links, and what the backup path held
  elsewhere stays. The next effect is the line that reports the backup path. In a run
  that returns, the write of \<open>pyproject.toml\<close> with the printed document comes right
  after these two.
\<close>

theorem convert_backup_first:
  assumes "convert ext proj project_path ensure_src virtual_project w = (r, w')"
  shows "(w' = w \<and> r \<noteq> Inr ()) \<or>
     (\<exists>w1 tail.
        copytree project_path (get_next_backup_path ext (fs w) project_path) w = (Inr (), w1) \<and>
        (\<forall>q n. fs w (project_path @ q) = Some n \<longrightarrow>
           fs w1 (get_next_backup_path ext (fs w) project_path @ q) = Some n) \<and>
        (\<forall>q. fs w (project_path @ q) = None \<longrightarrow>
           fs w1 (get_next_backup_path ext (fs w) project_path @ q)
             = fs w (get_next_backup_path ext (fs w) project_path @ q)) \<and>
        events w' = events w @
          CopyTree project_path (get_next_backup_path ext (fs w) project_path) #
          Print (''created backup: '' @ path_str (get_next_backup_path ext (fs w) project_path)) #
          tail \<and>
        (r = Inr () \<longrightarrow>
           (\<exists>pyproject result tail'.
              convert_document (format_python_constraint ext) proj pyproject
                ensure_src virtual_project = Inr result \<and>
              tail = Write (project_path @ [''pyproject.toml'']) (dumps ext result) # tail')))"
proof -
  let ?fmt = "format_python_constraint ext"
  let ?p = "project_path @ [''pyproject.toml'']"
  have early: "w' = w \<and> r \<noteq> Inr ()"
    if "\<not> (\<exists>secs content pyproject result.
           build_project ?fmt proj virtual_project = Inr secs \<and>
           load ext content = Inr pyproject \<and>
           build_result proj pyproject ensure_src virtual_project secs = Inr result \<and>
           write_project ext proj project_path ensure_src result w = (r, w'))"
    using assms that
    by (auto simp: convert_def read_text_def and_then_def
        split: sum.splits prod.splits option.splits node.splits)
  show ?thesis
  proof (cases "\<exists>secs content pyproject result.
           build_project ?fmt proj virtual_project = Inr secs \<and>
           load ext content = Inr pyproject \<and>
           build_result proj pyproject ensure_src virtual_project secs = Inr result \<and>
           write_project ext proj project_path ensure_src result w = (r, w')")
    case False
    with early show ?thesis by blast
  next
    case True
    then obtain secs content pyproject result where
      bp: "build_project ?fmt proj virtual_project = Inr secs"
      and br: "build_result proj pyproject ensure_src virtual_project secs = Inr result"
      and wp: "write_project ext proj project_path ensure_src result w = (r, w')"
      by blast
    from bp br have doc: "convert_document ?fmt proj pyproject ensure_src virtual_project = Inr result"
      by (simp add: convert_document_def and_then_def)
    from write_project_cases [OF wp] show ?thesis
    proof
      assume "w' = w \<and> r \<noteq> Inr ()"
      then show ?thesis by blast
    next
      assume "\<exists>w1 tail.
        copytree project_path (get_next_backup_path ext (fs w) project_path) w = (Inr (), w1) \<and>
        events w' = events w @
          CopyTree project_path (get_next_backup_path ext (fs w) project_path) #
          Print (''created backup: '' @ path_str (get_next_backup_path ext (fs w) project_path)) #
          tail \<and>
        (r = Inr () \<longrightarrow>
           (\<exists>tail'. tail = Write ?p (dumps ext result) # tail'))"
      then obtain w1 tail where
        c: "copytree project_path (get_next_backup_path ext (fs w) project_path) w = (Inr (), w1)"
        and e: "events w' = events w @
          CopyTree project_path (get_next_backup_path ext (fs w) project_path) #
          Print (''created backup: '' @ path_str (get_next_backup_path ext (fs w) project_path)) #
          tail"
        and t: "r = Inr () \<longrightarrow> (\<exists>tail'. tail = Write ?p (dumps ext result) # tail')"
        by blast
      from t doc have t': "r = Inr () \<longrightarrow>
           (\<exists>pyproject result tail'.
              convert_document ?fmt proj pyproject ensure_src virtual_project = Inr result \<and>
              tail = Write ?p (dumps ext result) # tail')"
        by blast
      from c copytree_Inr(2) [OF c] copytree_Inr(3) [OF c] e t'
      show ?thesis by blast
    qed
  qed
qed

lemma sample_build_result:
  "build_result sample_project sample_pyproject True False
     (sample_project_sec, [], sample_tool_rye_sec False) = Inr sample_result"
  using sample_convert_document
  unfolding convert_document_def sample_build_project
  by (simp add: and_then_def)

lemma sample_convert:
  "convert sample_externals sample_project [''work'', ''demo''] True False sample_world =
   write_project sample_externals sample_project [''work'', ''demo''] True sample_result
     sample_world"
proof -
  have e: "format_python_constraint sample_externals = sample_fmt"
    "load sample_externals = (\<lambda>text. Inr sample_pyproject)"
    by (simp_all add: sample_externals_def)
  have r: "read_text ([''work'', ''demo''] @ [''pyproject.toml'']) sample_world
             = (Inr ''[tool.poetry]'', sample_world)"
    by (simp add: read_text_def sample_world_def sample_fs_def)
  show ?thesis
    unfolding convert_def e sample_build_project r
    by (simp add: and_then_def sample_build_result)
qed

lemma sample_backup:
  "get_next_backup_path sample_externals (fs sample_world) [''work'', ''demo'']
     = [''work'', ''demo.bak'']"
  "copytree [''work'', ''demo''] [''work'', ''demo.bak''] sample_world
     = (Inr (), sample_backup_world)"
  by (simp_all add: sample_externals_def copytree_def sample_world_def sample_fs_def
      prefixes_snoc sample_backup_world_def)

lemma sample_dumps: "dumps sample_externals d = sample_text"
  by (simp add: sample_externals_def)

lemma sample_sweep:
  "sweep_lines (Suc 0) (readlines sample_text) w
     = (Inr (), w\<lparr>events := events w @ [Print ''Warning: found 'poetry' in line 2: # was poetry'']\<rparr>)"
  by (simp add: readlines_sample io_bind_def return_def print_def warning_def strip_def
      isspace_def str_nat.simps)

lemma sample_write_project:
  "fst (write_project sample_externals sample_project [''work'', ''demo''] True sample_result
     sample_world) = Inr ()"
  "events (snd (write_project sample_externals sample_project [''work'', ''demo''] True
     sample_result sample_world)) =
     [CopyTree [''work'', ''demo''] [''work'', ''demo.bak''],
      Print ''created backup: /work/demo.bak'',
      Write [''work'', ''demo'', ''pyproject.toml''] sample_text,
      Print ''Warning: found 'poetry' in line 2: # was poetry'',
      Remove [''work'', ''demo'', ''poetry.lock''],
      Mkdir [''work'', ''demo'', ''src''],
      Move [''work'', ''demo'', ''demo_app''] [''work'', ''demo'', ''src'', ''demo_app'']]"
  unfolding write_project_def Let_def sample_backup sample_dumps
  by (simp_all add: io_bind_def sample_backup print_def path_str_def write_text_def
      parent_is_dir_def sample_backup_world_def copied_def sample_fs_def
      validation_sweep_def read_text_def sample_sweep remove_lock_def exists_def remove_def
      move_to_src_def mkdir_def move_def sample_project_def Let_def follow.simps)

theorem convert_backup_first_witness:
  "convert sample_externals sample_project [''work'', ''demo''] True False sample_world =
     (Inr (), snd (convert sample_externals sample_project [''work'', ''demo''] True False
                     sample_world)) \<and>
   events (snd (convert sample_externals sample_project [''work'', ''demo''] True False
                  sample_world)) =
     [CopyTree [''work'', ''demo''] [''work'', ''demo.bak''],
      Print ''created backup: /work/demo.bak'',
      Write [''work'', ''demo'', ''pyproject.toml''] sample_text,
      Print ''Warning: found 'poetry' in line 2: # was poetry'',
      Remove [''work'', ''demo'', ''poetry.lock''],
      Mkdir [''work'', ''demo'', ''src''],
      Move [''work'', ''demo'', ''demo_app''] [''work'', ''demo'', ''src'', ''demo_app'']] \<and>
   (\<exists>w1. copytree [''work'', ''demo''] [''work'', ''demo.bak''] sample_world = (Inr (), w1) \<and>
      fs w1 [''work'', ''demo.bak'', ''pyproject.toml''] = Some (File ''[tool.poetry]'') \<and>
      fs w1 [''work'', ''demo.bak'', ''demo_app'', ''__init__.py''] = Some (File ''x = 1''))"
proof -
  let ?run = "convert sample_externals sample_project [''work'', ''demo''] True False sample_world"
  have h: "?run = (Inr (), snd ?run)"
    using sample_write_project(1) unfolding sample_convert
    by (metis prod.collapse)
  have ev: "events (snd ?run) =
     [CopyTree [''work'', ''demo''] [''work'', ''demo.bak''],
      Print ''created backup: /work/demo.bak'',
      Write [''work'', ''demo'', ''pyproject.toml''] sample_text,
      Print ''Warning: found 'poetry' in line 2: # was poetry'',
      Remove [''work'', ''demo'', ''poetry.lock''],
      Mkdir [''work'', ''demo'', ''src''],
      Move [''work'', ''demo'', ''demo_app''] [''work'', ''demo'', ''src'', ''demo_app'']]"
    using sample_write_project(2) unfolding sample_convert .
  from convert_backup_first [OF h] obtain w1 where
    c: "copytree [''work'', ''demo'']
          (get_next_backup_path sample_externals (fs sample_world) [''work'', ''demo''])
          sample_world = (Inr (), w1)"
    and k: "\<forall>q n. fs sample_world ([''work'', ''demo''] @ q) = Some n \<longrightarrow>
           fs w1 (get_next_backup_path sample_externals (fs sample_world) [''work'', ''demo''] @ q)
             = Some n"
    by blast
  have a: "fs sample_world ([''work'', ''demo''] @ [''pyproject.toml'']) = Some (File ''[tool.poetry]'')"
    and b: "fs sample_world ([''work'', ''demo''] @ [''demo_app'', ''__init__.py''])
              = Some (File ''x = 1'')"
    by (simp_all add: sample_world_def sample_fs_def)
  from k [THEN spec, THEN spec, THEN mp, OF a] k [THEN spec, THEN spec, THEN mp, OF b] c
  have "\<exists>w1. copytree [''work'', ''demo''] [''work'', ''demo.bak''] sample_world = (Inr (), w1) \<and>
      fs w1 [''work'', ''demo.bak'', ''pyproject.toml''] = Some (File ''[tool.poetry]'') \<and>
      fs w1 [''work'', ''demo.bak'', ''demo_app'', ''__init__.py''] = Some (File ''x = 1'')"
    unfolding sample_backup(1) by auto
  with h ev show ?thesis
    by (simp only: simp_thms)
qed

section \<open>The written document\<close>

text \<open>
  The document of the theorems above is the one that a returning run writes: it is the
  conversion of what the parser reads from \<open>pyproject.toml\<close>.
\<close>

lemma convert_writes_document:
  assumes "convert ext proj project_path ensure_src virtual_project w = (Inr (), w')"
  shows "\<exists>content pyproject result.
           fs w (project_path @ [''pyproject.toml'']) = Some (File content) \<and>
           load ext content = Inr pyproject \<and>
           convert_document (format_python_constraint ext) proj pyproject
             ensure_src virtual_project = Inr result \<and>
           Write (project_path @ [''pyproject.toml'']) (dumps ext result) \<in> set (events w')"
proof -
  let ?fmt = "format_python_constraint ext"
  let ?p = "project_path @ [''pyproject.toml'']"
  from assms obtain secs content pyproject result where
    bp: "build_project ?fmt proj virtual_project = Inr secs"
    and f: "fs w ?p = Some (File content)"
    and ld: "load ext content = Inr pyproject"
    and br: "build_result proj pyproject ensure_src virtual_project secs = Inr result"
    and wp: "write_project ext proj project_path ensure_src result w = (Inr (), w')"
    by (auto simp: convert_def read_text_def and_then_def
        split: sum.splits prod.splits option.splits node.splits)
  from bp br have doc: "convert_document ?fmt proj pyproject ensure_src virtual_project = Inr result"
    by (simp add: convert_document_def and_then_def)
  from write_project_cases [OF wp] obtain tail tail' where
    "events w' = events w @
          CopyTree project_path (get_next_backup_path ext (fs w) project_path) #
          Print (''created backup: '' @ path_str (get_next_backup_path ext (fs w) project_path)) #
          tail"
    "tail = Write ?p (dumps ext result) # tail'"
    by auto
  then have "Write ?p (dumps ext result) \<in> set (events w')"
    by simp
  with f ld doc show ?thesis by blast
qed

section \<open>The steps of a run\<close>

lemma io_bind_step:
  "m w = (Inr x, w1) \<Longrightarrow> io_bind m f w = f x w1"
  by (simp add: io_bind_def)

lemma convert_cases:
  assumes "convert ext proj project_path ensure_src virtual_project w = (r, w')"
  shows "(r \<noteq> Inr () \<and> w' = w) \<or>
     (\<exists>content pyproject result.
        fs w (project_path @ [''pyproject.toml'']) = Some (File content) \<and>
        load ext content = Inr pyproject \<and>
        convert_document (format_python_constraint ext) proj pyproject
          ensure_src virtual_project = Inr result \<and>
        write_project ext proj project_path ensure_src result w = (r, w'))"
proof -
  let ?fmt = "format_python_constraint ext"
  let ?p = "project_path @ [''pyproject.toml'']"
  show ?thesis
  proof (cases "build_project ?fmt proj virtual_project")
    case (Inl e)
    with assms show ?thesis
      by (auto simp: convert_def)
  next
    case (Inr secs)
    note bp = this
    show ?thesis
    proof (cases "\<exists>content. fs w ?p = Some (File content)")
      case False
      with assms bp show ?thesis
        by (auto simp: convert_def read_text_def split: option.splits node.splits)
    next
      case True
      then obtain content where f: "fs w ?p = Some (File content)"
        by blast
      then have rd: "read_text ?p w = (Inr content, w)"
        by (simp add: read_text_def)
      show ?thesis
      proof (cases "load ext content")
        case (Inl e)
        with assms bp rd show ?thesis
          by (auto simp: convert_def and_then_def)
      next
        case (Inr pyproject)
        note ld = this
        show ?thesis
        proof (cases "build_result proj pyproject ensure_src virtual_project secs")
          case (Inl e)
          with assms bp rd ld show ?thesis
            by (auto simp: convert_def and_then_def)
        next
          case (Inr result)
          with bp have doc:
            "convert_document ?fmt proj pyproject ensure_src virtual_project = Inr result"
            by (simp add: convert_document_def and_then_def)
          from assms bp rd ld Inr
          have "write_project ext proj project_path ensure_src result w = (r, w')"
            by (simp add: convert_def and_then_def)
          with f ld doc show ?thesis
            by blast
        qed
      qed
    qed
  qed
qed

lemma write_project_steps:
  assumes "write_project ext proj project_path ensure_src result w = (r, w')"
  shows "(r \<noteq> Inr () \<and> w' = w) \<or>
     (\<exists>w1.
        copytree project_path (get_next_backup_path ext (fs w) project_path) w = (Inr (), w1) \<and>
        ((r \<noteq> Inr () \<and>
          w' = w1\<lparr>events := events w1 @
                  [Print (''created backup: '' @
                     path_str (get_next_backup_path ext (fs w) project_path))]\<rparr>) \<or>
         (\<exists>w3.
            write_text (project_path @ [''pyproject.toml'']) (dumps ext result)
              (w1\<lparr>events := events w1 @
                  [Print (''created backup: '' @
                     path_str (get_next_backup_path ext (fs w) project_path))]\<rparr>)
              = (Inr (), w3) \<and>
            io_bind (remove_lock project_path) (\<lambda>_. move_to_src proj project_path ensure_src)
              (w3\<lparr>events := events w3 @
                 map (\<lambda>i. Print (''Warning: found 'poetry' in line '' @ str_nat (Suc i) @ '': ''
                          @ strip (readlines (dumps ext result) ! i)))
                   (filter (\<lambda>i. contains (readlines (dumps ext result) ! i) ''poetry'')
                      [0..<length (readlines (dumps ext result))])\<rparr>)
              = (r, w'))))"
proof -
  let ?B = "get_next_backup_path ext (fs w) project_path"
  let ?p = "project_path @ [''pyproject.toml'']"
  let ?t = "dumps ext result"
  let ?rest = "io_bind (remove_lock project_path) (\<lambda>_. move_to_src proj project_path ensure_src)"
  obtain r1 w1 where c: "copytree project_path ?B w = (r1, w1)"
    by (cases "copytree project_path ?B w")
  show ?thesis
  proof (cases r1)
    case (Inl e)
    with c have "w1 = w"
      using copytree_Inl by blast
    with assms c Inl have "r \<noteq> Inr () \<and> w' = w"
      by (auto simp: write_project_def Let_def io_bind_def)
    then show ?thesis by blast
  next
    case (Inr u)
    with c have c': "copytree project_path ?B w = (Inr (), w1)"
      by simp
    let ?w2 = "w1\<lparr>events := events w1 @ [Print (''created backup: '' @ path_str ?B)]\<rparr>"
    from assms c' have t: "io_bind (write_text ?p ?t) (\<lambda>_.
           io_bind (validation_sweep ?p) (\<lambda>_. ?rest)) ?w2 = (r, w')"
      by (simp add: write_project_def Let_def io_bind_def print_def)
    obtain r3 w3 where wt: "write_text ?p ?t ?w2 = (r3, w3)"
      by (cases "write_text ?p ?t ?w2")
    show ?thesis
    proof (cases r3)
      case (Inl e)
      with wt have "w3 = ?w2"
        using write_text_Inl by blast
      with t wt Inl have "r \<noteq> Inr () \<and> w' = ?w2"
        by (auto simp: io_bind_def)
      with c' show ?thesis by blast
    next
      case (Inr u)
      with wt have wt': "write_text ?p ?t ?w2 = (Inr (), w3)"
        by simp
      note sw = validation_sweep_after_write [OF wt']
      from t have "?rest
              (w3\<lparr>events := events w3 @
                 map (\<lambda>i. Print (''Warning: found 'poetry' in line '' @ str_nat (Suc i) @ '': ''
                          @ strip (readlines ?t ! i)))
                   (filter (\<lambda>i. contains (readlines ?t ! i) ''poetry'')
                      [0..<length (readlines ?t)])\<rparr>) = (r, w')"
        unfolding io_bind_step [of "write_text ?p ?t" ?w2 "()" w3, OF wt']
          io_bind_step [of "validation_sweep ?p" w3 "()", OF sw] .
      with c' wt' show ?thesis by blast
    qed
  qed
qed

text \<open>
  C8. A run of \<open>convert\<close> that gets as far as writing \<open>pyproject.toml\<close> reads the
  written text back and prints, right after the write, one warning for each line of it
  that contains \<open>poetry\<close>, in the order of the lines, with the number of the line
  counted from 1 and the stripped line. The sweep raises nothing: whatever the lines
  hold, the run goes on with the removal of the lock file and the move under \<open>src\<close>, and
  its outcome is the outcome of these. A run that stops earlier has printed no warning.
\<close>

theorem convert_sweep_warnings:
  assumes "convert ext proj project_path ensure_src virtual_project w = (r, w')"
  shows "(r \<noteq> Inr () \<and>
          (events w' = events w \<or>
           events w' = events w @
             [CopyTree project_path (get_next_backup_path ext (fs w) project_path),
              Print (''created backup: '' @
                path_str (get_next_backup_path ext (fs w) project_path))])) \<or>
     (\<exists>content pyproject result w4.
        fs w (project_path @ [''pyproject.toml'']) = Some (File content) \<and>
        load ext content = Inr pyproject \<and>
        convert_document (format_python_constraint ext) proj pyproject
          ensure_src virtual_project = Inr result \<and>
        fs w4 (project_path @ [''pyproject.toml'']) = Some (File (dumps ext result)) \<and>
        events w4 = events w @
          [CopyTree project_path (get_next_backup_path ext (fs w) project_path),
           Print (''created backup: '' @
             path_str (get_next_backup_path ext (fs w) project_path)),
           Write (project_path @ [''pyproject.toml'']) (dumps ext result)] @
          map (\<lambda>i. Print (''Warning: found 'poetry' in line '' @ str_nat (Suc i) @ '': ''
                          @ strip (readlines (dumps ext result) ! i)))
            (filter (\<lambda>i. contains (readlines (dumps ext result) ! i) ''poetry'')
               [0..<length (readlines (dumps ext result))]) \<and>
        io_bind (remove_lock project_path) (\<lambda>_. move_to_src proj project_path ensure_src) w4
          = (r, w') \<and>
        prefix (events w4) (events w'))"
proof -
  let ?fmt = "format_python_constraint ext"
  let ?B = "get_next_backup_path ext (fs w) project_path"
  let ?p = "project_path @ [''pyproject.toml'']"
  let ?rest = "io_bind (remove_lock project_path) (\<lambda>_. move_to_src proj project_path ensure_src)"
  let ?first = "r \<noteq> Inr () \<and>
          (events w' = events w \<or>
           events w' = events w @
             [CopyTree project_path ?B, Print (''created backup: '' @ path_str ?B)])"
  from convert_cases [OF assms] show ?thesis
  proof
    assume "r \<noteq> Inr () \<and> w' = w"
    then have ?first by simp
    then show ?thesis by (rule disjI1)
  next
    assume "\<exists>content pyproject result.
        fs w ?p = Some (File content) \<and> load ext content = Inr pyproject \<and>
        convert_document ?fmt proj pyproject ensure_src virtual_project = Inr result \<and>
        write_project ext proj project_path ensure_src result w = (r, w')"
    then obtain content pyproject result where
      f: "fs w ?p = Some (File content)"
      and ld: "load ext content = Inr pyproject"
      and doc: "convert_document ?fmt proj pyproject ensure_src virtual_project = Inr result"
      and wp: "write_project ext proj project_path ensure_src result w = (r, w')"
      by blast
    let ?t = "dumps ext result"
    let ?warnings = "map (\<lambda>i. Print (''Warning: found 'poetry' in line '' @ str_nat (Suc i) @ '': ''
                          @ strip (readlines ?t ! i)))
            (filter (\<lambda>i. contains (readlines ?t ! i) ''poetry'') [0..<length (readlines ?t)])"
    from write_project_steps [OF wp] show ?thesis
    proof
      assume "r \<noteq> Inr () \<and> w' = w"
      then have ?first by simp
      then show ?thesis by (rule disjI1)
    next
      assume "\<exists>w1. copytree project_path ?B w = (Inr (), w1) \<and>
        ((r \<noteq> Inr () \<and>
          w' = w1\<lparr>events := events w1 @ [Print (''created backup: '' @ path_str ?B)]\<rparr>) \<or>
         (\<exists>w3. write_text ?p ?t
              (w1\<lparr>events := events w1 @ [Print (''created backup: '' @ path_str ?B)]\<rparr>)
              = (Inr (), w3) \<and>
            ?rest (w3\<lparr>events := events w3 @ ?warnings\<rparr>) = (r, w')))"
      then obtain w1 where
        c: "copytree project_path ?B w = (Inr (), w1)"
        and d: "(r \<noteq> Inr () \<and>
          w' = w1\<lparr>events := events w1 @ [Print (''created backup: '' @ path_str ?B)]\<rparr>) \<or>
         (\<exists>w3. write_text ?p ?t
              (w1\<lparr>events := events w1 @ [Print (''created backup: '' @ path_str ?B)]\<rparr>)
              = (Inr (), w3) \<and>
            ?rest (w3\<lparr>events := events w3 @ ?warnings\<rparr>) = (r, w'))"
        by blast
      note e1 = copytree_Inr(1) [OF c]
      from d show ?thesis
      proof
        assume "r \<noteq> Inr () \<and>
          w' = w1\<lparr>events := events w1 @ [Print (''created backup: '' @ path_str ?B)]\<rparr>"
        with e1 have ?first by simp
        then show ?thesis by (rule disjI1)
      next
        assume "\<exists>w3. write_text ?p ?t
              (w1\<lparr>events := events w1 @ [Print (''created backup: '' @ path_str ?B)]\<rparr>)
              = (Inr (), w3) \<and>
            ?rest (w3\<lparr>events := events w3 @ ?warnings\<rparr>) = (r, w')"
        then obtain w3 where
          wt: "write_text ?p ?t
              (w1\<lparr>events := events w1 @ [Print (''created backup: '' @ path_str ?B)]\<rparr>)
              = (Inr (), w3)"
          and rest: "?rest (w3\<lparr>events := events w3 @ ?warnings\<rparr>) = (r, w')"
          by blast
        let ?w4 = "w3\<lparr>events := events w3 @ ?warnings\<rparr>"
        from write_text_Inr [OF wt] e1 have e3: "events w3 = events w @
          [CopyTree project_path ?B, Print (''created backup: '' @ path_str ?B), Write ?p ?t]"
          by simp
        then have e4: "events ?w4 = events w @
          [CopyTree project_path ?B, Print (''created backup: '' @ path_str ?B), Write ?p ?t]
          @ ?warnings"
          by simp
        from write_text_file [OF wt] have f4: "fs ?w4 ?p = Some (File ?t)"
          by simp
        have "grows ?rest"
          by (intro grows_bind grows_remove_lock grows_move_to_src)
        with rest have g: "prefix (events ?w4) (events w')"
          unfolding grows_def by blast
        have "\<exists>content pyproject result w4.
          fs w ?p = Some (File content) \<and> load ext content = Inr pyproject \<and>
          convert_document ?fmt proj pyproject ensure_src virtual_project = Inr result \<and>
          fs w4 ?p = Some (File (dumps ext result)) \<and>
          events w4 = events w @
            [CopyTree project_path ?B, Print (''created backup: '' @ path_str ?B),
             Write ?p (dumps ext result)] @
            map (\<lambda>i. Print (''Warning: found 'poetry' in line '' @ str_nat (Suc i) @ '': ''
                          @ strip (readlines (dumps ext result) ! i)))
              (filter (\<lambda>i. contains (readlines (dumps ext result) ! i) ''poetry'')
                 [0..<length (readlines (dumps ext result))]) \<and>
          ?rest w4 = (r, w') \<and> prefix (events w4) (events w')"
          by (intro exI conjI, rule f, rule ld, rule doc, rule f4, rule e4, rule rest, rule g)
        then show ?thesis by (rule disjI2)
      qed
    qed
  qed
qed

theorem convert_sweep_warnings_witness:
  "convert sample_externals sample_project [''work'', ''demo''] True False sample_world =
     (Inr (), snd (convert sample_externals sample_project [''work'', ''demo''] True False
                     sample_world)) \<and>
   (\<exists>w4. fs w4 [''work'', ''demo'', ''pyproject.toml''] = Some (File sample_text) \<and>
      readlines sample_text = [''[project]'' @ [CHR 0x0A], ''  # was poetry '' @ [CHR 0x0A]] \<and>
      events w4 =
        [CopyTree [''work'', ''demo''] [''work'', ''demo.bak''],
         Print ''created backup: /work/demo.bak'',
         Write [''work'', ''demo'', ''pyproject.toml''] sample_text,
         Print ''Warning: found 'poetry' in line 2: # was poetry''] \<and>
      io_bind (remove_lock [''work'', ''demo''])
        (\<lambda>_. move_to_src sample_project [''work'', ''demo''] True) w4
        = (Inr (), snd (convert sample_externals sample_project [''work'', ''demo''] True False
                          sample_world)))"
proof -
  let ?run = "convert sample_externals sample_project [''work'', ''demo''] True False sample_world"
  have h: "?run = (Inr (), snd ?run)"
    using sample_write_project(1) unfolding sample_convert
    by (metis prod.collapse)
  from convert_sweep_warnings [OF h] obtain result w4 where
    f: "fs w4 ([''work'', ''demo''] @ [''pyproject.toml''])
          = Some (File (dumps sample_externals result))"
    and e: "events w4 = events sample_world @
          [CopyTree [''work'', ''demo'']
             (get_next_backup_path sample_externals (fs sample_world) [''work'', ''demo'']),
           Print (''created backup: '' @
             path_str (get_next_backup_path sample_externals (fs sample_world)
                         [''work'', ''demo''])),
           Write ([''work'', ''demo''] @ [''pyproject.toml'']) (dumps sample_externals result)] @
          map (\<lambda>i. Print (''Warning: found 'poetry' in line '' @ str_nat (Suc i) @ '': ''
                          @ strip (readlines (dumps sample_externals result) ! i)))
            (filter (\<lambda>i. contains (readlines (dumps sample_externals result) ! i) ''poetry'')
               [0..<length (readlines (dumps sample_externals result))])"
    and r: "io_bind (remove_lock [''work'', ''demo''])
              (\<lambda>_. move_to_src sample_project [''work'', ''demo''] True) w4 = (Inr (), snd ?run)"
    by (elim disjE exE conjE) simp_all
  from f have f': "fs w4 [''work'', ''demo'', ''pyproject.toml''] = Some (File sample_text)"
    by (simp add: sample_dumps)
  from e have e': "events w4 =
        [CopyTree [''work'', ''demo''] [''work'', ''demo.bak''],
         Print ''created backup: /work/demo.bak'',
         Write [''work'', ''demo'', ''pyproject.toml''] sample_text,
         Print ''Warning: found 'poetry' in line 2: # was poetry'']"
    unfolding sample_dumps sample_backup(1) sample_hits
    by (simp add: sample_world_def path_str_def strip_def isspace_def sample_hits)
  from f' e' r readlines_sample have "\<exists>w4.
      fs w4 [''work'', ''demo'', ''pyproject.toml''] = Some (File sample_text) \<and>
      readlines sample_text = [''[project]'' @ [CHR 0x0A], ''  # was poetry '' @ [CHR 0x0A]] \<and>
      events w4 =
        [CopyTree [''work'', ''demo''] [''work'', ''demo.bak''],
         Print ''created backup: /work/demo.bak'',
         Write [''work'', ''demo'', ''pyproject.toml''] sample_text,
         Print ''Warning: found 'poetry' in line 2: # was poetry''] \<and>
      io_bind (remove_lock [''work'', ''demo''])
        (\<lambda>_. move_to_src sample_project [''work'', ''demo''] True) w4 = (Inr (), snd ?run)"
    by (intro exI conjI)
  with h show ?thesis
    by (simp only: simp_thms)
qed








end
